theory Spec2Isabelle
  imports Main "HOL-Library.Word"
begin

section \<open>JavaScript values\<close>

text \<open>
  The program (index.js) is an Express application behind the LINE signature middleware.
  Everything it inspects is a value produced by \<open>JSON.parse\<close> on the request body, so the
  model works on JSON values extended with \<open>undefined\<close> (the result of reading a property
  that does not exist).

  A JavaScript string is a sequence of UTF-16 code units. The reply templates of the
  source are Thai text, so each literal is written out as its code units.
\<close>

type_synonym jsstring = "16 word list"

definition ascii :: "string \<Rightarrow> jsstring" where
  \<comment> \<open>an ASCII literal of the source as code units\<close>
  "ascii s = map of_char s"

text \<open>
  \<open>JNum\<close> carries the decimal rendering of the number (what \<open>Number.prototype.toString\<close>
  returns for it): the program never computes with a number, it can only render one inside
  a template literal or test it against zero, and both are functions of the rendering
  (\<open>0\<close> and \<open>-0\<close> both render as "0"). An object is the list of its own properties.
\<close>

datatype jsval =
    JUndefined
  | JNull
  | JBool bool
  | JNum jsstring
  | JStr jsstring
  | JArr "jsval list"
  | JObj "(jsstring \<times> jsval) list"

text \<open>The exceptions that occur: the runtime's \<open>TypeError\<close>, the \<open>Error\<close> thrown at
  start-up, and whatever the reply-delivery client rejects with (an error object carrying a
  message).\<close>

datatype exn = TypeError | Error jsstring | DeliveryError jsstring

definition nullish :: "jsval \<Rightarrow> bool" where
  "nullish v = (v = JUndefined \<or> v = JNull)"

definition get_prop :: "jsval \<Rightarrow> jsstring \<Rightarrow> exn + jsval" where
  \<comment> \<open>\<open>v.k\<close> for the property names the handlers read (type, message, text, fileName,
      address, packageId, stickerId, replyToken, events): none of them exists on a built-in
      prototype, so only an object's own properties can supply a value. Reading a property
      of \<open>undefined\<close> or \<open>null\<close> throws.\<close>
  "get_prop v k =
     (case v of
        JUndefined \<Rightarrow> Inl TypeError
      | JNull \<Rightarrow> Inl TypeError
      | JObj kvs \<Rightarrow> Inr (case map_of kvs k of None \<Rightarrow> JUndefined | Some x \<Rightarrow> x)
      | _ \<Rightarrow> Inr JUndefined)"

definition truthy :: "jsval \<Rightarrow> bool" where
  \<comment> \<open>ToBoolean; JSON cannot encode NaN, so zero is the only falsy number\<close>
  "truthy v =
     (case v of
        JUndefined \<Rightarrow> False
      | JNull \<Rightarrow> False
      | JBool b \<Rightarrow> b
      | JNum n \<Rightarrow> n \<noteq> ascii ''0''
      | JStr s \<Rightarrow> s \<noteq> []
      | JArr _ \<Rightarrow> True
      | JObj _ \<Rightarrow> True)"

text \<open>
  \<open>toString\<close> is the conversion a template literal applies to an embedded value
  (ToString of the language specification). A primitive renders as itself. An array renders
  through \<open>Array.prototype.join\<close>: its elements joined by commas, \<open>undefined\<close> and \<open>null\<close>
  as the empty string. A parsed object inherits \<open>Object.prototype.toString\<close> and renders as
  "[object Object]", unless it has an own property named \<open>toString\<close>: that value is parsed
  JSON, hence not callable, the inherited \<open>valueOf\<close> returns the object itself, and the
  conversion throws a TypeError.
\<close>

fun toString :: "jsval \<Rightarrow> exn + jsstring"
  and join_elems :: "jsval list \<Rightarrow> exn + jsstring" where
  "toString JUndefined = Inr (ascii ''undefined'')"
| "toString JNull = Inr (ascii ''null'')"
| "toString (JBool b) = Inr (if b then ascii ''true'' else ascii ''false'')"
| "toString (JNum n) = Inr n"
| "toString (JStr s) = Inr s"
| "toString (JArr xs) = join_elems xs"
| "toString (JObj kvs) =
     (if map_of kvs (ascii ''toString'') = None then Inr (ascii ''[object Object]'')
      else Inl TypeError)"
| "join_elems [] = Inr []"
| "join_elems (x # xs) =
     (case (if x = JUndefined \<or> x = JNull then Inr [] else toString x) of
        Inl e \<Rightarrow> Inl e
      | Inr s \<Rightarrow>
          (if xs = [] then Inr s
           else (case join_elems xs of
                   Inl e \<Rightarrow> Inl e
                 | Inr r \<Rightarrow> Inr (s @ ascii '','' @ r))))"

section \<open>The string literals of the source\<close>

definition tpl_text :: jsstring where
  \<comment> \<open>line 108, the literal before the embedded userMessage; the literal after it is one double quote\<close>
  "tpl_text =
     [0x0E04, 0x0E38, 0x0E13, 0x0E44, 0x0E14, 0x0E49, 0x0E2A, 0x0E48, 0x0E07, 0x0E02, 0x0E49,
      0x0E2D, 0x0E04, 0x0E27, 0x0E32, 0x0E21, 0x0E1B, 0x0E23, 0x0E30, 0x0E40, 0x0E20, 0x0E17,
      0x003A, 0x0020, 0x0E02, 0x0E49, 0x0E2D, 0x0E04, 0x0E27, 0x0E32, 0x0E21, 0x0020, 0x0028,
      0x0054, 0x0065, 0x0078, 0x0074, 0x0029, 0x000A, 0x0E02, 0x0E49, 0x0E2D, 0x0E04, 0x0E27,
      0x0E32, 0x0E21, 0x0E02, 0x0E2D, 0x0E07, 0x0E04, 0x0E38, 0x0E13, 0x0E04, 0x0E37, 0x0E2D,
      0x003A, 0x0020, 0x0022]"

definition txt_image :: jsstring where
  \<comment> \<open>line 111\<close>
  "txt_image =
     [0x0E04, 0x0E38, 0x0E13, 0x0E44, 0x0E14, 0x0E49, 0x0E2A, 0x0E48, 0x0E07, 0x0E02, 0x0E49,
      0x0E2D, 0x0E04, 0x0E27, 0x0E32, 0x0E21, 0x0E1B, 0x0E23, 0x0E30, 0x0E40, 0x0E20, 0x0E17,
      0x003A, 0x0020, 0x0E23, 0x0E39, 0x0E1B, 0x0E20, 0x0E32, 0x0E1E, 0x0020, 0x0028, 0x0049,
      0x006D, 0x0061, 0x0067, 0x0065, 0x0029]"

definition txt_video :: jsstring where
  \<comment> \<open>line 114\<close>
  "txt_video =
     [0x0E04, 0x0E38, 0x0E13, 0x0E44, 0x0E14, 0x0E49, 0x0E2A, 0x0E48, 0x0E07, 0x0E02, 0x0E49,
      0x0E2D, 0x0E04, 0x0E27, 0x0E32, 0x0E21, 0x0E1B, 0x0E23, 0x0E30, 0x0E40, 0x0E20, 0x0E17,
      0x003A, 0x0020, 0x0E27, 0x0E34, 0x0E14, 0x0E35, 0x0E42, 0x0E2D, 0x0020, 0x0028, 0x0056,
      0x0069, 0x0064, 0x0065, 0x006F, 0x0029]"

definition txt_audio :: jsstring where
  \<comment> \<open>line 117\<close>
  "txt_audio =
     [0x0E04, 0x0E38, 0x0E13, 0x0E44, 0x0E14, 0x0E49, 0x0E2A, 0x0E48, 0x0E07, 0x0E02, 0x0E49,
      0x0E2D, 0x0E04, 0x0E27, 0x0E32, 0x0E21, 0x0E1B, 0x0E23, 0x0E30, 0x0E40, 0x0E20, 0x0E17,
      0x003A, 0x0020, 0x0E44, 0x0E1F, 0x0E25, 0x0E4C, 0x0E40, 0x0E2A, 0x0E35, 0x0E22, 0x0E07,
      0x0020, 0x0028, 0x0041, 0x0075, 0x0064, 0x0069, 0x006F, 0x0029]"

definition tpl_file :: jsstring where
  \<comment> \<open>line 121, the literal before the embedded fileName\<close>
  "tpl_file =
     [0x0E04, 0x0E38, 0x0E13, 0x0E44, 0x0E14, 0x0E49, 0x0E2A, 0x0E48, 0x0E07, 0x0E02, 0x0E49,
      0x0E2D, 0x0E04, 0x0E27, 0x0E32, 0x0E21, 0x0E1B, 0x0E23, 0x0E30, 0x0E40, 0x0E20, 0x0E17,
      0x003A, 0x0020, 0x0E44, 0x0E1F, 0x0E25, 0x0E4C, 0x0020, 0x0028, 0x0046, 0x0069, 0x006C,
      0x0065, 0x0029, 0x000A, 0x0E0A, 0x0E37, 0x0E48, 0x0E2D, 0x0E44, 0x0E1F, 0x0E25, 0x0E4C,
      0x003A, 0x0020]"

definition tpl_location :: jsstring where
  \<comment> \<open>line 125, the literal before the embedded address\<close>
  "tpl_location =
     [0x0E04, 0x0E38, 0x0E13, 0x0E44, 0x0E14, 0x0E49, 0x0E2A, 0x0E48, 0x0E07, 0x0E02, 0x0E49,
      0x0E2D, 0x0E04, 0x0E27, 0x0E32, 0x0E21, 0x0E1B, 0x0E23, 0x0E30, 0x0E40, 0x0E20, 0x0E17,
      0x003A, 0x0020, 0x0E15, 0x0E33, 0x0E41, 0x0E2B, 0x0E19, 0x0E48, 0x0E07, 0x0E17, 0x0E35,
      0x0E48, 0x0E15, 0x0E31, 0x0E49, 0x0E07, 0x0020, 0x0028, 0x004C, 0x006F, 0x0063, 0x0061,
      0x0074, 0x0069, 0x006F, 0x006E, 0x0029, 0x000A, 0x0E17, 0x0E35, 0x0E48, 0x0E2D, 0x0E22,
      0x0E39, 0x0E48, 0x003A, 0x0020]"

definition tpl_sticker :: jsstring where
  \<comment> \<open>line 129, the literal before the embedded packageId\<close>
  "tpl_sticker =
     [0x0E04, 0x0E38, 0x0E13, 0x0E44, 0x0E14, 0x0E49, 0x0E2A, 0x0E48, 0x0E07, 0x0E02, 0x0E49,
      0x0E2D, 0x0E04, 0x0E27, 0x0E32, 0x0E21, 0x0E1B, 0x0E23, 0x0E30, 0x0E40, 0x0E20, 0x0E17,
      0x003A, 0x0020, 0x0E2A, 0x0E15, 0x0E34, 0x0E01, 0x0E40, 0x0E01, 0x0E2D, 0x0E23, 0x0E4C,
      0x0020, 0x0028, 0x0053, 0x0074, 0x0069, 0x0063, 0x006B, 0x0065, 0x0072, 0x0029, 0x000A,
      0x0050, 0x0061, 0x0063, 0x006B, 0x0061, 0x0067, 0x0065, 0x0020, 0x0049, 0x0044, 0x003A,
      0x0020]"

definition tpl_sticker_mid :: jsstring where
  \<comment> \<open>line 129, the literal between packageId and stickerId\<close>
  "tpl_sticker_mid =
     [0x000A, 0x0053, 0x0074, 0x0069, 0x0063, 0x006B, 0x0065, 0x0072, 0x0020, 0x0049, 0x0044,
      0x003A, 0x0020]"

definition tpl_default :: jsstring where
  \<comment> \<open>line 133, the literal before the embedded messageType\<close>
  "tpl_default =
     [0x0E04, 0x0E38, 0x0E13, 0x0E44, 0x0E14, 0x0E49, 0x0E2A, 0x0E48, 0x0E07, 0x0E02, 0x0E49,
      0x0E2D, 0x0E04, 0x0E27, 0x0E32, 0x0E21, 0x0E1B, 0x0E23, 0x0E30, 0x0E40, 0x0E20, 0x0E17,
      0x003A, 0x0020, 0x0022]"

definition tpl_default_end :: jsstring where
  \<comment> \<open>line 133, the literal after the embedded messageType\<close>
  "tpl_default_end =
     [0x0022, 0x0020, 0x0E0B, 0x0E36, 0x0E48, 0x0E07, 0x0E22, 0x0E31, 0x0E07, 0x0E44, 0x0E21,
      0x0E48, 0x0E23, 0x0E2D, 0x0E07, 0x0E23, 0x0E31, 0x0E1A, 0x0E01, 0x0E32, 0x0E23, 0x0E15,
      0x0E2D, 0x0E1A, 0x0E01, 0x0E25, 0x0E31, 0x0E1A]"

definition health_status :: jsstring where
  \<comment> \<open>line 59; the last two code units are the surrogate pair of U+1F916\<close>
  "health_status =
     [0x004C, 0x0049, 0x004E, 0x0045, 0x0020, 0x0042, 0x006F, 0x0074, 0x0020, 0x0069, 0x0073,
      0x0020, 0x0072, 0x0075, 0x006E, 0x006E, 0x0069, 0x006E, 0x0067, 0x0020, 0x006F, 0x006E,
      0x0020, 0x0041, 0x0057, 0x0053, 0x0020, 0x004C, 0x0061, 0x006D, 0x0062, 0x0064, 0x0061,
      0x0021, 0x0020, 0xD83E, 0xDD16]"

section \<open>The reply-delivery client and the observable effects\<close>

text \<open>
  \<open>client.replyMessage(replyToken, message)\<close> belongs to the LINE SDK, not to this
  program. It is a parameter of the model: given the delivery calls made earlier in the
  process, the reply token and the message, it either fails (the promise rejects or the
  call throws, \<open>Inl\<close>) or resolves with a receipt (\<open>Inr\<close>). Every call settles.
  The world records what a test would count: the events handed to \<open>handleEvent\<close> and
  the delivery calls, each in the order they were made.
\<close>

record reply_message =
  msg_type :: jsstring
  msg_text :: jsstring

type_synonym delivery = "jsval \<times> reply_message"

type_synonym client = "delivery list \<Rightarrow> jsval \<Rightarrow> reply_message \<Rightarrow> exn + jsval"

record world =
  dispatched :: "jsval list"
  calls :: "delivery list"

text \<open>A settled promise.\<close>

datatype 'a promise = Resolved 'a | Rejected exn

definition ebind :: "exn + 'a \<Rightarrow> ('a \<Rightarrow> exn + 'b) \<Rightarrow> exn + 'b" where
  \<comment> \<open>sequencing of two steps, the first of which may throw\<close>
  "ebind x f = (case x of Inl e \<Rightarrow> Inl e | Inr v \<Rightarrow> f v)"

section \<open>handleEvent\<close>

text \<open>
  The \<open>switch\<close> of lines 105 to 136: the reply text for a message and its
  \<open>messageType\<close>. The cases compare with \<open>===\<close>, so only a string equal to the label
  selects a case. An embedded value goes through \<open>toString\<close>, which may throw.
\<close>

definition replyText :: "jsval \<Rightarrow> jsval \<Rightarrow> exn + jsstring" where
  "replyText message messageType =
     (if messageType = JStr (ascii ''text'') then
        ebind (get_prop message (ascii ''text'')) (\<lambda>userMessage.
        ebind (toString userMessage) (\<lambda>s. Inr (tpl_text @ s @ [0x22])))
      else if messageType = JStr (ascii ''image'') then Inr txt_image
      else if messageType = JStr (ascii ''video'') then Inr txt_video
      else if messageType = JStr (ascii ''audio'') then Inr txt_audio
      else if messageType = JStr (ascii ''file'') then
        ebind (get_prop message (ascii ''fileName'')) (\<lambda>fileName.
        ebind (toString fileName) (\<lambda>s. Inr (tpl_file @ s)))
      else if messageType = JStr (ascii ''location'') then
        ebind (get_prop message (ascii ''address'')) (\<lambda>address.
        ebind (toString address) (\<lambda>s. Inr (tpl_location @ s)))
      else if messageType = JStr (ascii ''sticker'') then
        ebind (get_prop message (ascii ''packageId'')) (\<lambda>packageId.
        ebind (toString packageId) (\<lambda>p.
        ebind (get_prop message (ascii ''stickerId'')) (\<lambda>stickerId.
        ebind (toString stickerId) (\<lambda>s. Inr (tpl_sticker @ p @ tpl_sticker_mid @ s)))))
      else
        ebind (toString messageType) (\<lambda>s. Inr (tpl_default @ s @ tpl_default_end)))"

text \<open>
  \<open>handleEvent\<close> (lines 90 to 156) is an \<open>async\<close> function: an exception thrown in its
  body rejects the promise it returns. Calls to \<open>console.log\<close> are left out, except that a
  template literal passed to one is still evaluated and can throw: the one of line 96
  outside the \<open>try\<close> block, the one of line 146 (which embeds the reply token) inside
  it, where the exception is caught like a failed delivery. The \<open>catch\<close> block reads
  properties of the error object only, which cannot throw, and returns \<open>null\<close>.
\<close>

definition handleEvent :: "client \<Rightarrow> world \<Rightarrow> jsval \<Rightarrow> jsval promise \<times> world" where
  "handleEvent client w0 event =
     (let w = w0\<lparr>dispatched := dispatched w0 @ [event]\<rparr> in
      case get_prop event (ascii ''type'') of
        Inl e \<Rightarrow> (Rejected e, w)
      | Inr ty \<Rightarrow>
          if ty \<noteq> JStr (ascii ''message'') then
            (case toString ty of
               Inl e \<Rightarrow> (Rejected e, w)
             | Inr _ \<Rightarrow> (Resolved JNull, w))
          else
            (case ebind (get_prop event (ascii ''message'')) (\<lambda>message.
                  ebind (get_prop message (ascii ''type'')) (\<lambda>messageType.
                  replyText message messageType)) of
               Inl e \<Rightarrow> (Rejected e, w)
             | Inr txt \<Rightarrow>
                 (let replyMessage = \<lparr>msg_type = ascii ''text'', msg_text = txt\<rparr> in
                  case ebind (get_prop event (ascii ''replyToken'')) (\<lambda>replyToken.
                       ebind (toString replyToken) (\<lambda>_. Inr replyToken)) of
                    Inl _ \<Rightarrow> (Resolved JNull, w)
                  | Inr replyToken \<Rightarrow>
                      (case client (calls w) replyToken replyMessage of
                         Inl _ \<Rightarrow>
                           (Resolved JNull,
                            w\<lparr>calls := calls w @ [(replyToken, replyMessage)]\<rparr>)
                       | Inr receipt \<Rightarrow>
                           (Resolved receipt,
                            w\<lparr>calls := calls w @ [(replyToken, replyMessage)]\<rparr>)))))"

section \<open>The webhook route\<close>

text \<open>
  \<open>req.body.events.map(handleEvent)\<close> calls \<open>handleEvent\<close> on the events from left to
  right; each call runs up to its delivery call before the next one starts, so the
  delivery calls are made in the order of the events.
\<close>

fun map_handleEvent :: "client \<Rightarrow> world \<Rightarrow> jsval list \<Rightarrow> jsval promise list \<times> world" where
  "map_handleEvent client w [] = ([], w)"
| "map_handleEvent client w (e # es) =
     (case handleEvent client w e of
        (p, w') \<Rightarrow>
          (case map_handleEvent client w' es of
             (ps, w'') \<Rightarrow> (p # ps, w'')))"

text \<open>
  \<open>Promise.all\<close>: the values in the order of the promises when every promise resolves,
  a rejection otherwise. The promises that reject here are rejected before \<open>Promise.all\<close>
  looks at them, so the reason it passes on is that of the first one in the list.
\<close>

fun promise_all :: "'a promise list \<Rightarrow> 'a list promise" where
  "promise_all [] = Resolved []"
| "promise_all (Rejected e # ps) = Rejected e"
| "promise_all (Resolved v # ps) =
     (case promise_all ps of
        Rejected e \<Rightarrow> Rejected e
      | Resolved vs \<Rightarrow> Resolved (v # vs))"

datatype resp_body = Send jsstring | Json jsval

record response =
  status :: nat
  body :: resp_body

definition length_is_zero :: "jsval \<Rightarrow> bool" where
  \<comment> \<open>\<open>v.length === 0\<close>: arrays and strings have a length; an object has one when it is
      an own property\<close>
  "length_is_zero v =
     (case v of
        JArr xs \<Rightarrow> xs = []
      | JStr s \<Rightarrow> s = []
      | JObj kvs \<Rightarrow> map_of kvs (ascii ''length'') = Some (JNum (ascii ''0''))
      | _ \<Rightarrow> False)"

text \<open>
  The handler of \<open>POST /default/webhook\<close> (lines 68 to 85). \<open>Inl\<close> is an exception that
  leaves the handler synchronously (reading \<open>events\<close> of a \<open>null\<close> body, or calling
  \<open>map\<close> on a value that is not an array); what is answered then is the framework's
  business. \<open>res.json\<close> is given the value before serialisation.
\<close>

definition webhook :: "client \<Rightarrow> world \<Rightarrow> jsval \<Rightarrow> (exn + response) \<times> world" where
  "webhook client w reqBody =
     (case get_prop reqBody (ascii ''events'') of
        Inl e \<Rightarrow> (Inl e, w)
      | Inr events \<Rightarrow>
          if \<not> truthy events \<or> length_is_zero events then
            (Inr \<lparr>status = 200, body = Send (ascii ''OK'')\<rparr>, w)
          else
            (case events of
               JArr es \<Rightarrow>
                 (case map_handleEvent client w es of
                    (ps, w') \<Rightarrow>
                      (case promise_all ps of
                         Resolved result \<Rightarrow>
                           (Inr \<lparr>status = 200,
                                 body = Json (JObj [(ascii ''status'', JStr (ascii ''success'')),
                                                    (ascii ''result'', JArr result)])\<rparr>, w')
                       | Rejected err \<Rightarrow>
                           (Inr \<lparr>status = 200,
                                 body = Json (JObj [(ascii ''status'', JStr (ascii ''error''))])\<rparr>,
                            w')))
             | _ \<Rightarrow> (Inl TypeError, w)))"

section \<open>The application\<close>

text \<open>
  \<open>lineConfig\<close> holds the two environment variables, each a string or \<open>undefined\<close>.
  The module throws while loading when one of them is missing or empty (lines 24 to 27).
\<close>

record lineConfig =
  channelSecret :: jsval
  channelAccessToken :: jsval

definition startup :: "lineConfig \<Rightarrow> exn + unit" where
  "startup cfg =
     (if \<not> truthy (channelSecret cfg) \<or> \<not> truthy (channelAccessToken cfg)
      then Inl (Error (ascii ''Missing required environment variables''))
      else Inr ())"

text \<open>The handler of \<open>GET /\<close> (lines 57 to 66); \<open>now\<close> is \<open>new Date().toISOString()\<close>.\<close>

definition health :: "lineConfig \<Rightarrow> jsstring \<Rightarrow> response" where
  "health cfg now =
     \<lparr>status = 200,
      body = Json (JObj
        [(ascii ''status'', JStr health_status),
         (ascii ''timestamp'', JStr now),
         (ascii ''config'', JObj
            [(ascii ''channelSecret'',
                JStr (if truthy (channelSecret cfg) then ascii ''Set'' else ascii ''Not set'')),
             (ascii ''channelAccessToken'',
                JStr (if truthy (channelAccessToken cfg) then ascii ''Set''
                      else ascii ''Not set''))])])\<rparr>"

text \<open>
  A request as the application sees it. The LINE middleware and Express's router are
  libraries: the request carries what they report. \<open>AuthError m\<close>: the middleware called
  back with an error whose message is \<open>m\<close>. \<open>AuthOk b\<close>: it verified the signature,
  stored the parsed body \<open>b\<close> in \<open>req.body\<close> and called back without error. The route is
  the one the router selects: \<open>GET /\<close>, \<open>POST /default/webhook\<close>, or none.
\<close>

datatype auth = AuthError jsstring | AuthOk jsval

datatype route = GetRoot | PostWebhook | NoRoute

record request =
  lineMiddleware :: auth
  route :: route
  now :: jsstring

text \<open>
  What one request leads to: a response written by this program; nothing written because
  no route matched, or because an exception left a handler (both left to the framework);
  or no handler at all because the module failed to load.
\<close>

datatype result = Response response | Unrouted | Uncaught exn | InitFailure exn

text \<open>
  The middleware wrapper of lines 41 to 52 is registered with \<open>app.use\<close> before the
  routes and without a path, so it runs for every request, whatever its route.
\<close>

definition app :: "lineConfig \<Rightarrow> client \<Rightarrow> world \<Rightarrow> request \<Rightarrow> result \<times> world" where
  "app cfg client w req =
     (case lineMiddleware req of
        AuthError m \<Rightarrow>
          (Response \<lparr>status = 401,
                     body = Json (JObj [(ascii ''message'', JStr (ascii ''Unauthorized'')),
                                        (ascii ''error'', JStr m)])\<rparr>, w)
      | AuthOk reqBody \<Rightarrow>
          (case route req of
             GetRoot \<Rightarrow> (Response (health cfg (now req)), w)
           | PostWebhook \<Rightarrow>
               (case webhook client w reqBody of
                  (Inl e, w') \<Rightarrow> (Uncaught e, w')
                | (Inr r, w') \<Rightarrow> (Response r, w'))
           | NoRoute \<Rightarrow> (Unrouted, w)))"

definition handler :: "lineConfig \<Rightarrow> client \<Rightarrow> world \<Rightarrow> request \<Rightarrow> result \<times> world" where
  \<comment> \<open>\<open>module.exports.handler\<close>: it exists only when the module loaded\<close>
  "handler cfg client w req =
     (case startup cfg of
        Inl e \<Rightarrow> (InitFailure e, w)
      | Inr _ \<Rightarrow> app cfg client w req)"

section \<open>Notions used to state the properties\<close>

text \<open>A value renders when a template literal can embed it.\<close>

definition stringifiable :: "jsval \<Rightarrow> bool" where
  "stringifiable v = (case toString v of Inl _ \<Rightarrow> False | Inr _ \<Rightarrow> True)"

text \<open>The property \<open>k\<close> of a value that is neither \<open>undefined\<close> nor \<open>null\<close>.\<close>

definition field :: "jsval \<Rightarrow> jsstring \<Rightarrow> jsval" where
  "field v k = (case get_prop v k of Inl _ \<Rightarrow> JUndefined | Inr x \<Rightarrow> x)"

text \<open>
  The payload fields the reply templates embed. In the data model they are strings; here
  it is enough that each of them renders (a missing field renders as "undefined").
\<close>

definition payload_fields :: "jsstring list" where
  "payload_fields =
     [ascii ''text'', ascii ''fileName'', ascii ''address'', ascii ''packageId'',
      ascii ''stickerId'']"

definition payload_renders :: "jsval \<Rightarrow> bool" where
  "payload_renders message = list_all (\<lambda>k. stringifiable (field message k)) payload_fields"

text \<open>
  An event the dispatcher can process: a value other than \<open>undefined\<close> and \<open>null\<close> whose
  \<open>type\<close> either is the string "message", and then \<open>message\<close> is neither missing nor
  \<open>null\<close> and its type and payload fields render, or is something else that renders.
\<close>

definition processable :: "jsval \<Rightarrow> bool" where
  "processable event =
     (\<not> nullish event \<and>
      (if field event (ascii ''type'') = JStr (ascii ''message'')
       then \<not> nullish (field event (ascii ''message'')) \<and>
            stringifiable (field (field event (ascii ''message'')) (ascii ''type'')) \<and>
            payload_renders (field event (ascii ''message''))
       else stringifiable (field event (ascii ''type''))))"

text \<open>
  The client's answer to the delivery call \<open>handleEvent\<close> makes for an event in a world,
  read off the call log: \<open>None\<close> when it makes no call.
\<close>

definition delivery_of :: "client \<Rightarrow> world \<Rightarrow> jsval \<Rightarrow> (exn + jsval) option" where
  "delivery_of client w event =
     (case drop (length (calls w)) (calls (snd (handleEvent client w event))) of
        [] \<Rightarrow> None
      | (replyToken, replyMessage) # _ \<Rightarrow> Some (client (calls w) replyToken replyMessage))"

text \<open>
  The delivery call an event asks for, read off the event alone: for a message event whose
  \<open>message\<close> is neither missing nor \<open>null\<close>, whose reply text composes and whose reply
  token renders, the pair of \<open>event.replyToken\<close> and the text message that carries the
  composed reply; \<open>None\<close> for every other event.
\<close>

definition delivery_args :: "jsval \<Rightarrow> delivery option" where
  "delivery_args event =
     (if field event (ascii ''type'') \<noteq> JStr (ascii ''message'') \<or>
         nullish (field event (ascii ''message''))
      then None
      else (case replyText (field event (ascii ''message''))
                   (field (field event (ascii ''message'')) (ascii ''type'')) of
              Inl _ \<Rightarrow> None
            | Inr reply \<Rightarrow>
                if stringifiable (field event (ascii ''replyToken''))
                then Some (field event (ascii ''replyToken''),
                           \<lparr>msg_type = ascii ''text'', msg_text = reply\<rparr>)
                else None))"

text \<open>The world in which the \<open>i\<close>-th event of a batch is handled.\<close>

definition world_before :: "client \<Rightarrow> world \<Rightarrow> jsval list \<Rightarrow> nat \<Rightarrow> world" where
  "world_before client w es i = snd (map_handleEvent client w (take i es))"

section \<open>Example inputs\<close>

definition no_world :: world where
  "no_world = \<lparr>dispatched = [], calls = []\<rparr>"

definition accepting :: client where
  \<comment> \<open>a client that delivers every reply and returns an empty receipt\<close>
  "accepting = (\<lambda>h t m. Inr (JObj []))"

definition failing_at :: "nat \<Rightarrow> client" where
  \<comment> \<open>a client whose \<open>n\<close>-th call (from 0) fails and whose other calls deliver\<close>
  "failing_at n =
     (\<lambda>h t m. if length h = n then Inl (DeliveryError (ascii ''Invalid reply token''))
               else Inr (JObj []))"

definition receipt_for :: "jsval \<Rightarrow> reply_message \<Rightarrow> jsval" where
  \<comment> \<open>a receipt that names the reply token and the text it was given\<close>
  "receipt_for replyToken replyMessage =
     JObj [(ascii ''replyToken'', replyToken), (ascii ''text'', JStr (msg_text replyMessage))]"

definition receipts_except :: "nat \<Rightarrow> client" where
  \<comment> \<open>a client whose \<open>n\<close>-th call (from 0) fails and whose other calls return
      \<open>receipt_for\<close> their arguments\<close>
  "receipts_except n =
     (\<lambda>h t m. if length h = n then Inl (DeliveryError (ascii ''Invalid reply token''))
               else Inr (receipt_for t m))"

definition secrets :: lineConfig where
  "secrets = \<lparr>channelSecret = JStr (ascii ''s3cr3t''), channelAccessToken = JStr (ascii ''t0k3n'')\<rparr>"

definition follow_event :: jsval where
  "follow_event =
     JObj [(ascii ''type'', JStr (ascii ''follow'')),
           (ascii ''replyToken'', JStr (ascii ''r0''))]"

definition text_event :: "jsstring \<Rightarrow> jsval" where
  "text_event s =
     JObj [(ascii ''type'', JStr (ascii ''message'')),
           (ascii ''replyToken'', JStr (ascii ''r1'')),
           (ascii ''message'', JObj [(ascii ''type'', JStr (ascii ''text'')),
                                     (ascii ''text'', JStr s)])]"

definition image_event :: jsval where
  "image_event =
     JObj [(ascii ''type'', JStr (ascii ''message'')),
           (ascii ''replyToken'', JStr (ascii ''r2'')),
           (ascii ''message'', JObj [(ascii ''type'', JStr (ascii ''image''))])]"

definition bare_message_event :: jsval where
  \<comment> \<open>a message event without a \<open>message\<close> field\<close>
  "bare_message_event =
     JObj [(ascii ''type'', JStr (ascii ''message'')),
           (ascii ''replyToken'', JStr (ascii ''r3''))]"

definition post_events :: "jsval list \<Rightarrow> request" where
  "post_events es =
     \<lparr>lineMiddleware = AuthOk (JObj [(ascii ''destination'', JStr (ascii ''U0'')),
                                     (ascii ''events'', JArr es)]),
      route = PostWebhook, now = ascii ''2026-01-01T00:00:00.000Z''\<rparr>"

definition mixed_batch :: "jsval list" where
  \<comment> \<open>two text messages around an image message and a follow event\<close>
  "mixed_batch =
     [text_event (ascii ''hello''), image_event, follow_event, text_event (ascii ''bye'')]"

section \<open>Basic facts\<close>

lemma get_prop_JObj:
  "get_prop (JObj kvs) k = Inr (case map_of kvs k of None \<Rightarrow> JUndefined | Some x \<Rightarrow> x)"
  by (simp add: get_prop_def)

lemma get_prop_Inl: "get_prop v k = Inl e \<Longrightarrow> nullish v \<and> e = TypeError"
  by (cases v) (simp_all add: get_prop_def nullish_def)

lemma get_prop_nullish: "nullish v \<Longrightarrow> get_prop v k = Inl TypeError"
  by (auto simp: get_prop_def nullish_def)

lemma get_prop_prop: "\<not> nullish v \<Longrightarrow> get_prop v k = Inr (field v k)"
  by (cases v) (simp_all add: get_prop_def field_def nullish_def)

lemma get_prop_Inr: "get_prop v k = Inr x \<Longrightarrow> \<not> nullish v \<and> field v k = x"
  by (cases v) (auto simp: get_prop_def field_def nullish_def)

lemma stringifiable_Inr: "stringifiable v \<Longrightarrow> \<exists>s. toString v = Inr s"
  by (cases "toString v") (simp_all add: stringifiable_def)

lemma stringifiable_JStr: "stringifiable (JStr s)"
  by (simp add: stringifiable_def)

section \<open>Non-message events\<close>

lemma handleEvent_other_type:
  assumes "get_prop event (ascii ''type'') = Inr ty"
    and "ty \<noteq> JStr (ascii ''message'')"
    and "toString ty = Inr s"
  shows "handleEvent client w event =
           (Resolved JNull, w\<lparr>dispatched := dispatched w @ [event]\<rparr>)"
  using assms by (simp add: handleEvent_def Let_def)

text \<open>
  C6. An event whose type is a string other than "message" resolves to \<open>null\<close> (the
  skipped outcome) and the call log is unchanged: no delivery call is made.
\<close>

theorem handleEvent_skips_non_message:
  assumes "get_prop event (ascii ''type'') = Inr (JStr t)"
    and "t \<noteq> ascii ''message''"
  shows "fst (handleEvent client w event) = Resolved JNull \<and>
         calls (snd (handleEvent client w event)) = calls w \<and>
         delivery_of client w event = None"
proof -
  have "handleEvent client w event =
          (Resolved JNull, w\<lparr>dispatched := dispatched w @ [event]\<rparr>)"
    using assms by (intro handleEvent_other_type [where ty = "JStr t" and s = t]) simp_all
  then show ?thesis by (simp add: delivery_of_def)
qed

theorem handleEvent_skips_non_message_witness:
  "fst (handleEvent (failing_at 0) no_world follow_event) = Resolved JNull \<and>
   calls (snd (handleEvent (failing_at 0) no_world follow_event)) = [] \<and>
   delivery_of (failing_at 0) no_world follow_event = None"
proof -
  have a: "get_prop follow_event (ascii ''type'') = Inr (JStr (ascii ''follow''))"
    by (simp add: follow_event_def get_prop_JObj ascii_def)
  have b: "ascii ''follow'' \<noteq> ascii ''message''"
    by (simp add: ascii_def)
  show ?thesis
    using handleEvent_skips_non_message [OF a b, of "failing_at 0" no_world]
    by (simp add: no_world_def)
qed

section \<open>Authentication failure\<close>

text \<open>
  C7. When the LINE middleware reports an error with message \<open>m\<close>, the answer is 401
  with the JSON body \<open>{message: "Unauthorized", error: m}\<close>, whatever the route, and the
  world is unchanged: \<open>handleEvent\<close> is not invoked and no delivery call is made.
\<close>

theorem auth_failure_unauthorized:
  assumes "startup cfg = Inr ()"
    and "lineMiddleware req = AuthError m"
  shows "handler cfg client w req =
           (Response \<lparr>status = 401,
                      body = Json (JObj [(ascii ''message'', JStr (ascii ''Unauthorized'')),
                                         (ascii ''error'', JStr m)])\<rparr>, w)"
  using assms by (simp add: handler_def app_def)

theorem auth_failure_unauthorized_witness:
  "handler secrets accepting no_world
     \<lparr>lineMiddleware = AuthError (ascii ''no signature''), route = PostWebhook,
      now = ascii ''2026-01-01T00:00:00.000Z''\<rparr> =
   (Response \<lparr>status = 401,
              body = Json (JObj [(ascii ''message'', JStr (ascii ''Unauthorized'')),
                                 (ascii ''error'', JStr (ascii ''no signature''))])\<rparr>,
    no_world)"
proof -
  have a: "startup secrets = Inr ()"
    by (simp add: startup_def secrets_def truthy_def ascii_def)
  show ?thesis
    by (rule auth_failure_unauthorized [OF a]) simp
qed

section \<open>Empty batches\<close>

lemma webhook_no_events:
  assumes "map_of kvs (ascii ''events'') = None \<or> map_of kvs (ascii ''events'') = Some (JArr [])"
  shows "webhook client w (JObj kvs) = (Inr \<lparr>status = 200, body = Send (ascii ''OK'')\<rparr>, w)"
  using assms
  by (auto simp: webhook_def get_prop_JObj truthy_def length_is_zero_def)

text \<open>
  C8. A POST to the webhook route whose parsed body is an object without an \<open>events\<close>
  field, or with an empty \<open>events\<close> array, is answered 200 with the text "OK"; the world
  is unchanged, so \<open>handleEvent\<close> is not invoked and no delivery call is made.
\<close>

theorem empty_events_acknowledged:
  assumes "startup cfg = Inr ()"
    and "lineMiddleware req = AuthOk (JObj kvs)"
    and "route req = PostWebhook"
    and "map_of kvs (ascii ''events'') = None \<or> map_of kvs (ascii ''events'') = Some (JArr [])"
  shows "handler cfg client w req =
           (Response \<lparr>status = 200, body = Send (ascii ''OK'')\<rparr>, w)"
  using assms(1-3) webhook_no_events [OF assms(4)]
  by (simp add: handler_def app_def)

theorem empty_events_acknowledged_witness:
  "handler secrets (failing_at 0) no_world (post_events []) =
     (Response \<lparr>status = 200, body = Send (ascii ''OK'')\<rparr>, no_world) \<and>
   handler secrets (failing_at 0) no_world
     \<lparr>lineMiddleware = AuthOk (JObj [(ascii ''destination'', JStr (ascii ''U0''))]),
      route = PostWebhook, now = ascii ''2026-01-01T00:00:00.000Z''\<rparr> =
     (Response \<lparr>status = 200, body = Send (ascii ''OK'')\<rparr>, no_world)"
proof -
  have a: "startup secrets = Inr ()"
    by (simp add: startup_def secrets_def truthy_def ascii_def)
  have b: "map_of [(ascii ''destination'', JStr (ascii ''U0'')), (ascii ''events'', JArr [])]
             (ascii ''events'') = None \<or>
           map_of [(ascii ''destination'', JStr (ascii ''U0'')), (ascii ''events'', JArr [])]
             (ascii ''events'') = Some (JArr [])"
    by (simp add: ascii_def)
  have c: "map_of [(ascii ''destination'', JStr (ascii ''U0''))] (ascii ''events'') = None \<or>
           map_of [(ascii ''destination'', JStr (ascii ''U0''))] (ascii ''events'') =
             Some (JArr [])"
    by (simp add: ascii_def)
  have "handler secrets (failing_at 0) no_world (post_events []) =
          (Response \<lparr>status = 200, body = Send (ascii ''OK'')\<rparr>, no_world)"
    by (rule empty_events_acknowledged [OF a _ _ b]) (simp_all add: post_events_def)
  moreover have "handler secrets (failing_at 0) no_world
     \<lparr>lineMiddleware = AuthOk (JObj [(ascii ''destination'', JStr (ascii ''U0''))]),
      route = PostWebhook, now = ascii ''2026-01-01T00:00:00.000Z''\<rparr> =
     (Response \<lparr>status = 200, body = Send (ascii ''OK'')\<rparr>, no_world)"
    by (rule empty_events_acknowledged [OF a _ _ c]) simp_all
  ultimately show ?thesis by simp
qed

section \<open>Reply composition\<close>

lemma templates_nonempty:
  "tpl_text \<noteq> []" "txt_image \<noteq> []" "txt_video \<noteq> []" "txt_audio \<noteq> []"
  "tpl_file \<noteq> []" "tpl_location \<noteq> []" "tpl_sticker \<noteq> []" "tpl_default \<noteq> []"
  by (simp_all add: tpl_text_def txt_image_def txt_video_def txt_audio_def tpl_file_def
        tpl_location_def tpl_sticker_def tpl_default_def)

lemma payload_renders_field:
  assumes "payload_renders message" and "k \<in> set payload_fields"
  shows "\<exists>s. toString (field message k) = Inr s"
  using assms by (auto simp: payload_renders_def list_all_iff intro: stringifiable_Inr)

lemma replyText_nonempty:
  assumes "\<not> nullish message" and "payload_renders message" and "stringifiable messageType"
  shows "\<exists>s. replyText message messageType = Inr s \<and> s \<noteq> []"
proof -
  have g: "get_prop message k = Inr (field message k)" for k
    using assms(1) by (rule get_prop_prop)
  obtain t where t: "toString (field message (ascii ''text'')) = Inr t"
    using payload_renders_field [OF assms(2)] by (auto simp: payload_fields_def)
  obtain f where f: "toString (field message (ascii ''fileName'')) = Inr f"
    using payload_renders_field [OF assms(2)] by (auto simp: payload_fields_def)
  obtain a where a: "toString (field message (ascii ''address'')) = Inr a"
    using payload_renders_field [OF assms(2)] by (auto simp: payload_fields_def)
  obtain p where p: "toString (field message (ascii ''packageId'')) = Inr p"
    using payload_renders_field [OF assms(2)] by (auto simp: payload_fields_def)
  obtain i where i: "toString (field message (ascii ''stickerId'')) = Inr i"
    using payload_renders_field [OF assms(2)] by (auto simp: payload_fields_def)
  obtain m where m: "toString messageType = Inr m"
    using stringifiable_Inr [OF assms(3)] by blast
  show ?thesis
    unfolding replyText_def
    by (simp add: ebind_def g t f a p i m templates_nonempty)
qed

lemma replyText_without_payload:
  assumes "mt \<notin> {ascii ''text'', ascii ''file'', ascii ''location'', ascii ''sticker''}"
  shows "\<exists>s. replyText message (JStr mt) = Inr s \<and> s \<noteq> []"
  using assms by (simp add: replyText_def ebind_def templates_nonempty)

text \<open>
  C2. For every string \<open>mt\<close> as the message type, one of the seven known kinds or not,
  the \<open>switch\<close> yields a reply text and the text is not empty: for every message whose
  payload fields render (as the strings of the data model do; a missing field renders as
  "undefined"), and for a message of any shape when \<open>mt\<close> is none of the four kinds whose
  template embeds a payload field, which covers every kind never seen before.
\<close>

theorem replyText_total:
  "(\<not> nullish message \<and> payload_renders message \<longrightarrow>
      (\<exists>s. replyText message (JStr mt) = Inr s \<and> s \<noteq> [])) \<and>
   (mt \<notin> {ascii ''text'', ascii ''file'', ascii ''location'', ascii ''sticker''} \<longrightarrow>
      (\<exists>s. replyText message (JStr mt) = Inr s \<and> s \<noteq> []))"
  using replyText_nonempty [of message "JStr mt"] replyText_without_payload [of mt message]
    stringifiable_JStr [of mt]
  by blast

theorem replyText_total_witness:
  "(\<exists>s. replyText (JObj [(ascii ''type'', JStr (ascii ''sticker'')),
                         (ascii ''packageId'', JStr (ascii ''1'')),
                         (ascii ''stickerId'', JStr (ascii ''2''))])
          (JStr (ascii ''sticker'')) = Inr s \<and> s \<noteq> []) \<and>
   (\<exists>s. replyText (JObj [(ascii ''type'', JStr (ascii ''flex''))]) (JStr (ascii ''flex'')) = Inr s
        \<and> s \<noteq> [])"
proof -
  let ?sticker = "JObj [(ascii ''type'', JStr (ascii ''sticker'')),
                        (ascii ''packageId'', JStr (ascii ''1'')),
                        (ascii ''stickerId'', JStr (ascii ''2''))]"
  have a: "\<not> nullish ?sticker"
    by (simp add: nullish_def)
  have b: "payload_renders ?sticker"
    by code_simp
  have c: "ascii ''flex'' \<notin>
             {ascii ''text'', ascii ''file'', ascii ''location'', ascii ''sticker''}"
    by (simp add: ascii_def)
  from replyText_total [of ?sticker "ascii ''sticker''"] a b
  have "\<exists>s. replyText ?sticker (JStr (ascii ''sticker'')) = Inr s \<and> s \<noteq> []"
    by blast
  moreover from replyText_total [of "JObj [(ascii ''type'', JStr (ascii ''flex''))]" "ascii ''flex''"] c
  have "\<exists>s. replyText (JObj [(ascii ''type'', JStr (ascii ''flex''))]) (JStr (ascii ''flex'')) =
              Inr s \<and> s \<noteq> []"
    by blast
  ultimately show ?thesis by blast
qed

lemma replyText_text:
  assumes "get_prop message (ascii ''text'') = Inr (JStr s)"
  shows "replyText message (JStr (ascii ''text'')) = Inr (tpl_text @ s @ [0x22])"
  using assms by (simp add: replyText_def ebind_def)

lemma handleEvent_delivers:
  assumes "get_prop event (ascii ''type'') = Inr (JStr (ascii ''message''))"
    and "get_prop event (ascii ''message'') = Inr message"
    and "get_prop message (ascii ''type'') = Inr messageType"
    and "replyText message messageType = Inr txt"
    and "get_prop event (ascii ''replyToken'') = Inr replyToken"
    and "toString replyToken = Inr r"
  shows "calls (snd (handleEvent client w event)) =
           calls w @ [(replyToken, \<lparr>msg_type = ascii ''text'', msg_text = txt\<rparr>)]"
  using assms by (simp add: handleEvent_def Let_def ebind_def split: sum.splits)

text \<open>
  C5. For a message event whose message has type "text" and the string \<open>s\<close> as its
  \<open>text\<close>, the reply text is the literal of line 108 up to the embedded value, then \<open>s\<close>
  unchanged, then the closing double quote; and that text is what the delivery call is
  given, under the event's reply token.
\<close>

theorem text_reply_embeds_body_verbatim:
  assumes "get_prop event (ascii ''type'') = Inr (JStr (ascii ''message''))"
    and "get_prop event (ascii ''message'') = Inr message"
    and "get_prop message (ascii ''type'') = Inr (JStr (ascii ''text''))"
    and "get_prop message (ascii ''text'') = Inr (JStr s)"
    and "get_prop event (ascii ''replyToken'') = Inr (JStr token)"
  shows "replyText message (JStr (ascii ''text'')) = Inr (tpl_text @ s @ [0x22]) \<and>
         calls (snd (handleEvent client w event)) =
           calls w @ [(JStr token, \<lparr>msg_type = ascii ''text'',
                                     msg_text = tpl_text @ s @ [0x22]\<rparr>)]"
proof -
  have t: "replyText message (JStr (ascii ''text'')) = Inr (tpl_text @ s @ [0x22])"
    using assms(4) by (rule replyText_text)
  have "toString (JStr token) = Inr token" by simp
  from handleEvent_delivers [OF assms(1-3) t assms(5) this] t show ?thesis by simp
qed

theorem text_reply_embeds_body_verbatim_witness:
  "replyText (JObj [(ascii ''type'', JStr (ascii ''text'')),
                    (ascii ''text'', JStr [0x22, 0x68, 0x69, 0x22, 0x0A, 0x5C, 0x0E01, 0x24, 0x7B])])
     (JStr (ascii ''text'')) =
     Inr (tpl_text @ [0x22, 0x68, 0x69, 0x22, 0x0A, 0x5C, 0x0E01, 0x24, 0x7B] @ [0x22]) \<and>
   calls (snd (handleEvent accepting no_world
                 (text_event [0x22, 0x68, 0x69, 0x22, 0x0A, 0x5C, 0x0E01, 0x24, 0x7B]))) =
     [(JStr (ascii ''r1''),
       \<lparr>msg_type = ascii ''text'',
        msg_text = tpl_text @ [0x22, 0x68, 0x69, 0x22, 0x0A, 0x5C, 0x0E01, 0x24, 0x7B] @ [0x22]\<rparr>)]"
proof -
  let ?s = "[0x22, 0x68, 0x69, 0x22, 0x0A, 0x5C, 0x0E01, 0x24, 0x7B] :: jsstring"
  let ?m = "JObj [(ascii ''type'', JStr (ascii ''text'')), (ascii ''text'', JStr ?s)]"
  have a: "get_prop (text_event ?s) (ascii ''type'') = Inr (JStr (ascii ''message''))"
    by (simp add: text_event_def get_prop_JObj ascii_def)
  have b: "get_prop (text_event ?s) (ascii ''message'') = Inr ?m"
    by (simp add: text_event_def get_prop_JObj ascii_def)
  have c: "get_prop ?m (ascii ''type'') = Inr (JStr (ascii ''text''))"
    by (simp add: get_prop_JObj ascii_def)
  have d: "get_prop ?m (ascii ''text'') = Inr (JStr ?s)"
    by (simp add: get_prop_JObj ascii_def)
  have e: "get_prop (text_event ?s) (ascii ''replyToken'') = Inr (JStr (ascii ''r1''))"
    by (simp add: text_event_def get_prop_JObj ascii_def)
  show ?thesis
    using text_reply_embeds_body_verbatim [OF a b c d e, of accepting no_world]
    by (simp add: no_world_def)
qed

section \<open>The batch and its response\<close>

lemma promise_all_map_Resolved: "promise_all (map Resolved vs) = Resolved vs"
  by (induction vs) simp_all

lemma promise_all_ResolvedD: "promise_all ps = Resolved vs \<Longrightarrow> ps = map Resolved vs"
proof (induction ps arbitrary: vs)
  case Nil
  then show ?case by simp
next
  case (Cons p ps)
  show ?case
  proof (cases p)
    case (Resolved v)
    with Cons.prems obtain ws where "promise_all ps = Resolved ws" and "vs = v # ws"
      by (cases "promise_all ps") auto
    with Cons.IH Resolved show ?thesis by simp
  next
    case (Rejected e)
    with Cons.prems show ?thesis by simp
  qed
qed

lemma promise_all_Rejected:
  assumes "Rejected e \<in> set ps"
  shows "\<exists>e'. promise_all ps = Rejected e'"
proof (cases "promise_all ps")
  case (Resolved vs)
  then have "ps = map Resolved vs" by (rule promise_all_ResolvedD)
  with assms show ?thesis by auto
next
  case (Rejected e')
  then show ?thesis by blast
qed

lemma webhook_events:
  assumes "get_prop reqBody (ascii ''events'') = Inr (JArr es)" and "es \<noteq> []"
  shows "webhook client w reqBody =
           (case promise_all (fst (map_handleEvent client w es)) of
              Resolved result \<Rightarrow>
                (Inr \<lparr>status = 200,
                      body = Json (JObj [(ascii ''status'', JStr (ascii ''success'')),
                                         (ascii ''result'', JArr result)])\<rparr>,
                 snd (map_handleEvent client w es))
            | Rejected err \<Rightarrow>
                (Inr \<lparr>status = 200,
                      body = Json (JObj [(ascii ''status'', JStr (ascii ''error''))])\<rparr>,
                 snd (map_handleEvent client w es)))"
  using assms
  by (simp add: webhook_def truthy_def length_is_zero_def split_beta split: promise.splits)

lemma webhook_array_status:
  assumes "get_prop reqBody (ascii ''events'') = Inr (JArr es)"
  shows "\<exists>b w'. webhook client w reqBody = (Inr \<lparr>status = 200, body = b\<rparr>, w')"
proof (cases "es = []")
  case True
  with assms show ?thesis
    by (simp add: webhook_def truthy_def length_is_zero_def)
next
  case False
  show ?thesis
    unfolding webhook_events [OF assms False]
    by (cases "promise_all (fst (map_handleEvent client w es))") simp_all
qed

lemma webhook_rejected:
  assumes "get_prop reqBody (ascii ''events'') = Inr (JArr es)"
    and "Rejected e \<in> set (fst (map_handleEvent client w es))"
  shows "fst (webhook client w reqBody) =
           Inr \<lparr>status = 200,
                body = Json (JObj [(ascii ''status'', JStr (ascii ''error''))])\<rparr>"
proof -
  from assms(2) have "es \<noteq> []" by auto
  moreover obtain e' where "promise_all (fst (map_handleEvent client w es)) = Rejected e'"
    using promise_all_Rejected [OF assms(2)] by blast
  ultimately show ?thesis
    by (simp add: webhook_events [OF assms(1)])
qed

text \<open>
  C4. A POST to the webhook route that passed the LINE middleware with an object as its
  body, whose \<open>events\<close> field is absent or an array (of any values), is answered with
  status 200. When the promise of some event rejects, which no \<open>try\<close> block of
  \<open>handleEvent\<close> covers, the body is \<open>{status: "error"}\<close> and the status is still 200.
\<close>

theorem webhook_always_answers_200:
  assumes "startup cfg = Inr ()"
    and "lineMiddleware req = AuthOk (JObj kvs)"
    and "route req = PostWebhook"
    and "map_of kvs (ascii ''events'') = None \<or>
         (\<exists>es. map_of kvs (ascii ''events'') = Some (JArr es))"
  shows "\<exists>b w'. handler cfg client w req = (Response \<lparr>status = 200, body = b\<rparr>, w') \<and>
           (\<forall>es e. map_of kvs (ascii ''events'') = Some (JArr es) \<and>
                   Rejected e \<in> set (fst (map_handleEvent client w es)) \<longrightarrow>
                   b = Json (JObj [(ascii ''status'', JStr (ascii ''error''))]))"
proof -
  have h: "handler cfg client w req =
             (case webhook client w (JObj kvs) of
                (Inl e, w') \<Rightarrow> (Uncaught e, w')
              | (Inr r, w') \<Rightarrow> (Response r, w'))"
    using assms(1-3) by (simp add: handler_def app_def)
  from assms(4) show ?thesis
  proof
    assume "map_of kvs (ascii ''events'') = None"
    then show ?thesis
      using webhook_no_events [of kvs client w] by (simp add: h)
  next
    assume "\<exists>es. map_of kvs (ascii ''events'') = Some (JArr es)"
    then obtain es where es: "map_of kvs (ascii ''events'') = Some (JArr es)" by blast
    then have g: "get_prop (JObj kvs) (ascii ''events'') = Inr (JArr es)"
      by (simp add: get_prop_JObj)
    obtain b w' where r: "webhook client w (JObj kvs) = (Inr \<lparr>status = 200, body = b\<rparr>, w')"
      using webhook_array_status [OF g] by blast
    have "b = Json (JObj [(ascii ''status'', JStr (ascii ''error''))])"
      if "Rejected e \<in> set (fst (map_handleEvent client w es))" for e
      using webhook_rejected [OF g that] r by simp
    with r es show ?thesis by (auto simp: h)
  qed
qed

lemma follow_then_bare:
  "fst (map_handleEvent accepting no_world [follow_event, bare_message_event]) =
     [Resolved JNull, Rejected TypeError]"
  by code_simp

theorem webhook_always_answers_200_witness:
  "fst (handler secrets accepting no_world (post_events [follow_event, bare_message_event])) =
     Response \<lparr>status = 200,
               body = Json (JObj [(ascii ''status'', JStr (ascii ''error''))])\<rparr>"
proof -
  let ?es = "[follow_event, bare_message_event]"
  let ?kvs = "[(ascii ''destination'', JStr (ascii ''U0'')), (ascii ''events'', JArr ?es)]"
  have a: "startup secrets = Inr ()"
    by (simp add: startup_def secrets_def truthy_def ascii_def)
  have b: "lineMiddleware (post_events ?es) = AuthOk (JObj ?kvs)"
    by (simp add: post_events_def)
  have c: "route (post_events ?es) = PostWebhook"
    by (simp add: post_events_def)
  have d: "map_of ?kvs (ascii ''events'') = Some (JArr ?es)"
    by (simp add: ascii_def)
  then have d': "map_of ?kvs (ascii ''events'') = None \<or>
                 (\<exists>es. map_of ?kvs (ascii ''events'') = Some (JArr es))"
    by blast
  have e: "Rejected TypeError \<in> set (fst (map_handleEvent accepting no_world ?es))"
    unfolding follow_then_bare by simp
  from webhook_always_answers_200 [OF a b c d', of accepting no_world] d e
  show ?thesis by auto
qed

section \<open>The health route\<close>

lemma health_presence_only:
  assumes "truthy (channelSecret a) = truthy (channelSecret b)"
    and "truthy (channelAccessToken a) = truthy (channelAccessToken b)"
  shows "health a t = health b t"
  using assms by (simp add: health_def)

text \<open>
  C9, as amended. The middleware wrapper runs before every route, the one of \<open>GET /\<close>
  included. When the middleware reports no error for a \<open>GET /\<close>, the answer is 200 with
  a JSON payload of \<open>status\<close>, \<open>timestamp\<close> and \<open>config\<close>, where \<open>config\<close> reports
  each of the two secrets by the string "Set" (the handler exists only when both are
  configured). The payload does not mention the configuration: whatever the secrets are,
  it is the same.
\<close>

theorem health_after_authentication:
  assumes "startup cfg = Inr ()"
    and "lineMiddleware req = AuthOk b"
    and "route req = GetRoot"
  shows "handler cfg client w req =
           (Response \<lparr>status = 200,
                      body = Json (JObj
                        [(ascii ''status'', JStr health_status),
                         (ascii ''timestamp'', JStr (now req)),
                         (ascii ''config'', JObj
                            [(ascii ''channelSecret'', JStr (ascii ''Set'')),
                             (ascii ''channelAccessToken'', JStr (ascii ''Set''))])])\<rparr>, w)"
proof -
  from assms(1) have "truthy (channelSecret cfg)" and "truthy (channelAccessToken cfg)"
    by (auto simp: startup_def split: if_splits)
  with assms show ?thesis
    by (simp add: handler_def app_def health_def)
qed

theorem health_after_authentication_witness:
  "handler secrets accepting no_world
     \<lparr>lineMiddleware = AuthOk (JObj []), route = GetRoot,
      now = ascii ''2026-01-01T00:00:00.000Z''\<rparr> =
   (Response \<lparr>status = 200,
              body = Json (JObj
                [(ascii ''status'', JStr health_status),
                 (ascii ''timestamp'', JStr (ascii ''2026-01-01T00:00:00.000Z'')),
                 (ascii ''config'', JObj
                    [(ascii ''channelSecret'', JStr (ascii ''Set'')),
                     (ascii ''channelAccessToken'', JStr (ascii ''Set''))])])\<rparr>, no_world)"
proof -
  have a: "startup secrets = Inr ()"
    by (simp add: startup_def secrets_def truthy_def ascii_def)
  show ?thesis
    using health_after_authentication [OF a, of _ "JObj []" accepting no_world]
    by simp
qed

text \<open>
  C9 as stated fails: a \<open>GET /\<close> on which the middleware reports an error (it does so
  for a request without a signature header) is answered 401, not 200; and where the
  answer is 200, the two entries of \<open>config\<close> are strings, not booleans.
\<close>

theorem health_counterexample:
  "fst (handler secrets accepting no_world
          \<lparr>lineMiddleware = AuthError (ascii ''no signature''), route = GetRoot,
           now = ascii ''2026-01-01T00:00:00.000Z''\<rparr>) =
     Response \<lparr>status = 401,
               body = Json (JObj [(ascii ''message'', JStr (ascii ''Unauthorized'')),
                                  (ascii ''error'', JStr (ascii ''no signature''))])\<rparr> \<and>
   body (health secrets (ascii ''2026-01-01T00:00:00.000Z'')) =
     Json (JObj
       [(ascii ''status'', JStr health_status),
        (ascii ''timestamp'', JStr (ascii ''2026-01-01T00:00:00.000Z'')),
        (ascii ''config'', JObj
           [(ascii ''channelSecret'', JStr (ascii ''Set'')),
            (ascii ''channelAccessToken'', JStr (ascii ''Set''))])])"
  by (simp add: handler_def app_def health_def startup_def secrets_def truthy_def ascii_def)

section \<open>What handleEvent can do\<close>

text \<open>
  Whatever the client, \<open>handleEvent\<close> either makes no delivery call, and then its outcome
  does not depend on the client, or makes exactly one, and then its outcome is \<open>null\<close>
  when the call fails and the receipt when it succeeds.
\<close>

lemma handleEvent_cases:
  "(calls (snd (handleEvent client w event)) = calls w \<and>
    (\<forall>c. handleEvent c w event = handleEvent client w event)) \<or>
   (\<exists>t m. \<forall>c. calls (snd (handleEvent c w event)) = calls w @ [(t, m)] \<and>
          fst (handleEvent c w event) =
            (case c (calls w) t m of Inl _ \<Rightarrow> Resolved JNull | Inr r \<Rightarrow> Resolved r))"
proof (cases "get_prop event (ascii ''type'')")
  case (Inl e)
  then show ?thesis by (simp add: handleEvent_def Let_def)
next
  case ty: (Inr ty)
  show ?thesis
  proof (cases "ty = JStr (ascii ''message'')")
    case False
    with ty show ?thesis
      by (cases "toString ty") (simp_all add: handleEvent_def Let_def)
  next
    case True
    show ?thesis
    proof (cases "ebind (get_prop event (ascii ''message'')) (\<lambda>message.
                    ebind (get_prop message (ascii ''type'')) (\<lambda>messageType.
                    replyText message messageType))")
      case (Inl e)
      with ty True show ?thesis by (simp add: handleEvent_def Let_def)
    next
      case reply: (Inr reply)
      show ?thesis
      proof (cases "ebind (get_prop event (ascii ''replyToken'')) (\<lambda>replyToken.
                      ebind (toString replyToken) (\<lambda>_. Inr replyToken))")
        case (Inl e)
        with ty True reply show ?thesis by (simp add: handleEvent_def Let_def)
      next
        case (Inr token)
        have "calls (snd (handleEvent c w event)) =
                calls w @ [(token, \<lparr>msg_type = ascii ''text'', msg_text = reply\<rparr>)] \<and>
              fst (handleEvent c w event) =
                (case c (calls w) token \<lparr>msg_type = ascii ''text'', msg_text = reply\<rparr> of
                   Inl _ \<Rightarrow> Resolved JNull | Inr r \<Rightarrow> Resolved r)" for c
          using ty True reply Inr
          by (simp add: handleEvent_def Let_def split: sum.splits)
        then show ?thesis by blast
      qed
    qed
  qed
qed

lemma handleEvent_world: "snd (handleEvent c w event) = snd (handleEvent client w event)"
  by (simp add: handleEvent_def Let_def split: sum.splits)

lemma delivery_of_None:
  assumes "delivery_of client w event = None"
  shows "calls (snd (handleEvent client w event)) = calls w \<and>
         (\<forall>c. handleEvent c w event = handleEvent client w event)"
  using assms handleEvent_cases [of client w event]
  by (auto simp: delivery_of_def)

lemma delivery_of_Some:
  assumes "delivery_of client w event = Some x"
  shows "\<exists>t m. x = client (calls w) t m \<and>
           (\<forall>c. calls (snd (handleEvent c w event)) = calls w @ [(t, m)] \<and>
                fst (handleEvent c w event) =
                  (case c (calls w) t m of Inl _ \<Rightarrow> Resolved JNull | Inr r \<Rightarrow> Resolved r))"
  using assms handleEvent_cases [of client w event]
  by (auto simp: delivery_of_def)

section \<open>Events that reject\<close>

lemma handleEvent_message_missing:
  assumes "get_prop event (ascii ''type'') = Inr (JStr (ascii ''message''))"
    and "nullish (field event (ascii ''message''))"
  shows "handleEvent client w event =
           (Rejected TypeError, w\<lparr>dispatched := dispatched w @ [event]\<rparr>)"
proof -
  from assms(1) have "\<not> nullish event" by (auto dest: get_prop_Inr)
  then have "get_prop event (ascii ''message'') = Inr (field event (ascii ''message''))"
    by (rule get_prop_prop)
  moreover have "get_prop (field event (ascii ''message'')) (ascii ''type'') = Inl TypeError"
    using assms(2) by (rule get_prop_nullish)
  ultimately show ?thesis
    using assms(1) by (simp add: handleEvent_def Let_def ebind_def)
qed

lemma handleEvent_processable:
  assumes "processable event"
  shows "\<exists>v. fst (handleEvent client w event) = Resolved v \<and>
             (v = JNull \<or> (\<exists>h t m. client h t m = Inr v))"
proof -
  from assms have n: "\<not> nullish event" by (simp add: processable_def)
  have g: "get_prop event k = Inr (field event k)" for k
    using n by (rule get_prop_prop)
  show ?thesis
  proof (cases "field event (ascii ''type'') = JStr (ascii ''message'')")
    case True
    let ?m = "field event (ascii ''message'')"
    from assms True have m: "\<not> nullish ?m" "stringifiable (field ?m (ascii ''type''))"
      "payload_renders ?m"
      by (simp_all add: processable_def)
    have gm: "get_prop ?m (ascii ''type'') = Inr (field ?m (ascii ''type''))"
      using m(1) by (rule get_prop_prop)
    obtain reply where reply: "replyText ?m (field ?m (ascii ''type'')) = Inr reply"
      using replyText_nonempty [OF m(1) m(3) m(2)] by blast
    show ?thesis
    proof (cases "toString (field event (ascii ''replyToken''))")
      case (Inl e)
      then show ?thesis
        by (simp add: handleEvent_def Let_def ebind_def g gm reply True)
    next
      case (Inr r)
      let ?c = "client (calls w) (field event (ascii ''replyToken''))
                  \<lparr>msg_type = ascii ''text'', msg_text = reply\<rparr>"
      show ?thesis
      proof (cases ?c)
        case (Inl e)
        with Inr show ?thesis
          by (simp add: handleEvent_def Let_def ebind_def g gm reply True)
      next
        case (Inr receipt)
        then have "\<exists>h t m. client h t m = Inr receipt" by blast
        with Inr \<open>toString (field event (ascii ''replyToken'')) = Inr r\<close> show ?thesis
          by (simp add: handleEvent_def Let_def ebind_def g gm reply True)
      qed
    qed
  next
    case False
    with assms have "stringifiable (field event (ascii ''type''))"
      by (simp add: processable_def)
    then obtain s where "toString (field event (ascii ''type'')) = Inr s"
      using stringifiable_Inr by blast
    from handleEvent_other_type [OF g False this] show ?thesis by simp
  qed
qed

lemma map_handleEvent_rejected:
  assumes "event \<in> set es"
    and "\<And>w. fst (handleEvent client w event) = Rejected x"
  shows "Rejected x \<in> set (fst (map_handleEvent client w es))"
  using assms(1)
proof (induction es arbitrary: w)
  case Nil
  then show ?case by simp
next
  case (Cons e es)
  show ?case
  proof (cases "e = event")
    case True
    then show ?thesis
      using assms(2) [of w] by (simp add: split_beta)
  next
    case False
    with Cons.prems have "event \<in> set es" by simp
    from Cons.IH [OF this] show ?thesis by (simp add: split_beta)
  qed
qed

section \<open>The delivery call of an event\<close>

lemma field_nullish: "nullish v \<Longrightarrow> field v k = JUndefined"
  by (auto simp: field_def get_prop_def nullish_def)

lemma handleEvent_delivery_args_Some:
  assumes "delivery_args event = Some (t, m)"
  shows "handleEvent client w event =
           (case client (calls w) t m of Inl _ \<Rightarrow> Resolved JNull | Inr r \<Rightarrow> Resolved r,
            w\<lparr>dispatched := dispatched w @ [event], calls := calls w @ [(t, m)]\<rparr>)"
proof -
  let ?m = "field event (ascii ''message'')"
  let ?tok = "field event (ascii ''replyToken'')"
  from assms have ty: "field event (ascii ''type'') = JStr (ascii ''message'')"
    and nm: "\<not> nullish ?m"
    by (auto simp: delivery_args_def split: if_splits)
  from assms ty nm obtain reply
    where reply: "replyText ?m (field ?m (ascii ''type'')) = Inr reply"
      and tok: "stringifiable ?tok"
      and t: "t = ?tok" and m: "m = \<lparr>msg_type = ascii ''text'', msg_text = reply\<rparr>"
    by (auto simp: delivery_args_def split: if_splits sum.splits)
  have "\<not> nullish event"
    using ty field_nullish [of event "ascii ''type''"] by auto
  then have g: "get_prop event k = Inr (field event k)" for k
    by (rule get_prop_prop)
  have gm: "get_prop ?m (ascii ''type'') = Inr (field ?m (ascii ''type''))"
    using nm by (rule get_prop_prop)
  obtain r where r: "toString ?tok = Inr r"
    using stringifiable_Inr [OF tok] by blast
  show ?thesis
    by (cases "client (calls w) t m")
       (simp_all add: handleEvent_def Let_def ebind_def g gm ty reply r t m)
qed

lemma handleEvent_delivery_args_None:
  assumes "delivery_args event = None"
  shows "calls (snd (handleEvent client w event)) = calls w \<and>
         (\<forall>v. fst (handleEvent client w event) = Resolved v \<longrightarrow> v = JNull)"
proof (cases "get_prop event (ascii ''type'')")
  case (Inl e)
  then show ?thesis by (simp add: handleEvent_def Let_def)
next
  case ty: (Inr ty)
  then have ne: "\<not> nullish event" and f: "field event (ascii ''type'') = ty"
    by (auto dest: get_prop_Inr)
  have g: "get_prop event k = Inr (field event k)" for k
    using ne by (rule get_prop_prop)
  show ?thesis
  proof (cases "ty = JStr (ascii ''message'')")
    case False
    with ty show ?thesis
      by (cases "toString ty") (simp_all add: handleEvent_def Let_def)
  next
    case True
    let ?m = "field event (ascii ''message'')"
    let ?tok = "field event (ascii ''replyToken'')"
    show ?thesis
    proof (cases "nullish ?m")
      case True
      then have "get_prop ?m (ascii ''type'') = Inl TypeError"
        by (rule get_prop_nullish)
      with ty \<open>ty = JStr (ascii ''message'')\<close> show ?thesis
        by (simp add: handleEvent_def Let_def ebind_def g)
    next
      case False
      then have gm: "get_prop ?m (ascii ''type'') = Inr (field ?m (ascii ''type''))"
        by (rule get_prop_prop)
      show ?thesis
      proof (cases "replyText ?m (field ?m (ascii ''type''))")
        case (Inl e)
        with ty True show ?thesis
          by (simp add: handleEvent_def Let_def ebind_def g gm)
      next
        case (Inr reply)
        with assms f True False have "\<not> stringifiable ?tok"
          by (auto simp: delivery_args_def split: if_splits)
        then obtain e where "toString ?tok = Inl e"
          by (cases "toString ?tok") (simp_all add: stringifiable_def)
        with ty True Inr show ?thesis
          by (simp add: handleEvent_def Let_def ebind_def g gm)
      qed
    qed
  qed
qed

lemma handleEvent_calls:
  "calls (snd (handleEvent client w event)) =
     calls w @ (case delivery_args event of None \<Rightarrow> [] | Some d \<Rightarrow> [d])"
proof (cases "delivery_args event")
  case None
  with handleEvent_delivery_args_None [OF None, of client w] show ?thesis by simp
next
  case (Some d)
  obtain t m where "d = (t, m)" by (cases d)
  with Some handleEvent_delivery_args_Some [of event t m client w] show ?thesis by simp
qed

lemma map_handleEvent_calls:
  "calls (snd (map_handleEvent client w es)) = calls w @ List.map_filter delivery_args es"
proof (induction es arbitrary: w)
  case Nil
  then show ?case by (simp add: List.map_filter_simps)
next
  case (Cons e es)
  show ?case
    by (cases "delivery_args e")
       (simp_all add: split_beta Cons.IH handleEvent_calls List.map_filter_simps)
qed

lemma processable_delivery_args:
  assumes "processable event"
    and "field event (ascii ''type'') = JStr (ascii ''message'')"
    and "stringifiable (field event (ascii ''replyToken''))"
  shows "\<exists>reply. replyText (field event (ascii ''message''))
                   (field (field event (ascii ''message'')) (ascii ''type'')) = Inr reply \<and>
                 reply \<noteq> [] \<and>
                 delivery_args event =
                   Some (field event (ascii ''replyToken''),
                         \<lparr>msg_type = ascii ''text'', msg_text = reply\<rparr>)"
proof -
  let ?m = "field event (ascii ''message'')"
  from assms(1,2) have m: "\<not> nullish ?m" "stringifiable (field ?m (ascii ''type''))"
    "payload_renders ?m"
    by (simp_all add: processable_def)
  obtain reply where "replyText ?m (field ?m (ascii ''type'')) = Inr reply" "reply \<noteq> []"
    using replyText_nonempty [OF m(1) m(3) m(2)] by blast
  with assms(2,3) m(1) show ?thesis
    by (simp add: delivery_args_def)
qed

lemma handleEvent_processable_outcome:
  assumes "processable event"
  shows "fst (handleEvent client w event) =
           (case delivery_args event of
              None \<Rightarrow> Resolved JNull
            | Some (replyToken, replyMessage) \<Rightarrow>
                (case client (calls w) replyToken replyMessage of
                   Inl _ \<Rightarrow> Resolved JNull
                 | Inr receipt \<Rightarrow> Resolved receipt))"
proof (cases "delivery_args event")
  case None
  obtain v where "fst (handleEvent client w event) = Resolved v"
    using handleEvent_processable [OF assms, of client w] by blast
  with handleEvent_delivery_args_None [OF None, of client w] None show ?thesis by simp
next
  case (Some d)
  obtain t m where "d = (t, m)" by (cases d)
  with Some handleEvent_delivery_args_Some [of event t m client w] show ?thesis by simp
qed

text \<open>
  C1, as amended. On a processable event \<open>handleEvent\<close> does not reject. It makes the
  delivery call the event asks for, if any, and nothing else: a message event whose reply
  token renders asks for the call with \<open>event.replyToken\<close> and the composed reply, and
  then the promise resolves with the receipt the client returns for that very call, or with
  \<open>null\<close> when that call fails; an event of another type asks for none and the promise
  resolves with \<open>null\<close>. On a message event whose \<open>message\<close> is missing or \<open>null\<close>
  the promise rejects with a TypeError (line 101 is outside the \<open>try\<close> block); every
  batch that contains such an event is answered 200 with \<open>{status: "error"}\<close>, without
  the outcomes of its other events.
\<close>

theorem handleEvent_rejects_only_unprocessable:
  "(processable event \<longrightarrow>
      fst (handleEvent client w event) =
        (case delivery_args event of
           None \<Rightarrow> Resolved JNull
         | Some (replyToken, replyMessage) \<Rightarrow>
             (case client (calls w) replyToken replyMessage of
                Inl _ \<Rightarrow> Resolved JNull
              | Inr receipt \<Rightarrow> Resolved receipt)) \<and>
      calls (snd (handleEvent client w event)) =
        calls w @ (case delivery_args event of None \<Rightarrow> [] | Some d \<Rightarrow> [d]) \<and>
      (field event (ascii ''type'') \<noteq> JStr (ascii ''message'') \<longrightarrow>
         delivery_args event = None) \<and>
      (field event (ascii ''type'') = JStr (ascii ''message'') \<and>
       stringifiable (field event (ascii ''replyToken'')) \<longrightarrow>
         (\<exists>reply. replyText (field event (ascii ''message''))
                    (field (field event (ascii ''message'')) (ascii ''type'')) = Inr reply \<and>
                  reply \<noteq> [] \<and>
                  delivery_args event =
                    Some (field event (ascii ''replyToken''),
                          \<lparr>msg_type = ascii ''text'', msg_text = reply\<rparr>)))) \<and>
   (get_prop event (ascii ''type'') = Inr (JStr (ascii ''message'')) \<and>
    nullish (field event (ascii ''message'')) \<longrightarrow>
      fst (handleEvent client w event) = Rejected TypeError \<and>
      (\<forall>es reqBody w0.
          event \<in> set es \<and> get_prop reqBody (ascii ''events'') = Inr (JArr es) \<longrightarrow>
          fst (webhook client w0 reqBody) =
            Inr \<lparr>status = 200,
                 body = Json (JObj [(ascii ''status'', JStr (ascii ''error''))])\<rparr>))"
proof (intro conjI impI allI)
  assume "processable event"
  then show "fst (handleEvent client w event) =
        (case delivery_args event of
           None \<Rightarrow> Resolved JNull
         | Some (replyToken, replyMessage) \<Rightarrow>
             (case client (calls w) replyToken replyMessage of
                Inl _ \<Rightarrow> Resolved JNull
              | Inr receipt \<Rightarrow> Resolved receipt))"
    by (rule handleEvent_processable_outcome)
next
  show "calls (snd (handleEvent client w event)) =
        calls w @ (case delivery_args event of None \<Rightarrow> [] | Some d \<Rightarrow> [d])"
    by (rule handleEvent_calls)
next
  assume "field event (ascii ''type'') \<noteq> JStr (ascii ''message'')"
  then show "delivery_args event = None"
    by (simp add: delivery_args_def)
next
  assume "processable event"
    and "field event (ascii ''type'') = JStr (ascii ''message'') \<and>
         stringifiable (field event (ascii ''replyToken''))"
  then show "\<exists>reply. replyText (field event (ascii ''message''))
                    (field (field event (ascii ''message'')) (ascii ''type'')) = Inr reply \<and>
                  reply \<noteq> [] \<and>
                  delivery_args event =
                    Some (field event (ascii ''replyToken''),
                          \<lparr>msg_type = ascii ''text'', msg_text = reply\<rparr>)"
    using processable_delivery_args [of event] by blast
next
  assume a: "get_prop event (ascii ''type'') = Inr (JStr (ascii ''message'')) \<and>
             nullish (field event (ascii ''message''))"
  then show "fst (handleEvent client w event) = Rejected TypeError"
    by (simp add: handleEvent_message_missing)
next
  fix es reqBody w0
  assume a: "get_prop event (ascii ''type'') = Inr (JStr (ascii ''message'')) \<and>
             nullish (field event (ascii ''message''))"
    and b: "event \<in> set es \<and> get_prop reqBody (ascii ''events'') = Inr (JArr es)"
  have "fst (handleEvent client w' event) = Rejected TypeError" for w'
    using a by (simp add: handleEvent_message_missing)
  with b have "Rejected TypeError \<in> set (fst (map_handleEvent client w0 es))"
    using map_handleEvent_rejected [of event es client TypeError w0] by blast
  with b show "fst (webhook client w0 reqBody) =
            Inr \<lparr>status = 200,
                 body = Json (JObj [(ascii ''status'', JStr (ascii ''error''))])\<rparr>"
    using webhook_rejected [of reqBody es TypeError client w0] by blast
qed

theorem handleEvent_rejects_only_unprocessable_witness:
  "fst (handleEvent (receipts_except 1) no_world (text_event (ascii ''hello''))) =
     Resolved (receipt_for (JStr (ascii ''r1''))
                 \<lparr>msg_type = ascii ''text'',
                  msg_text = tpl_text @ ascii ''hello'' @ [0x22]\<rparr>) \<and>
   calls (snd (handleEvent (receipts_except 1) no_world (text_event (ascii ''hello'')))) =
     [(JStr (ascii ''r1''),
       \<lparr>msg_type = ascii ''text'', msg_text = tpl_text @ ascii ''hello'' @ [0x22]\<rparr>)] \<and>
   fst (handleEvent (receipts_except 0) no_world (text_event (ascii ''hello''))) =
     Resolved JNull \<and>
   fst (handleEvent (receipts_except 0) no_world follow_event) = Resolved JNull \<and>
   calls (snd (handleEvent (receipts_except 0) no_world follow_event)) = [] \<and>
   fst (handleEvent accepting no_world bare_message_event) = Rejected TypeError \<and>
   fst (webhook accepting no_world
          (JObj [(ascii ''events'', JArr [follow_event, bare_message_event])])) =
     Inr \<lparr>status = 200, body = Json (JObj [(ascii ''status'', JStr (ascii ''error''))])\<rparr>"
proof -
  let ?ev = "text_event (ascii ''hello'')"
  let ?msg = "\<lparr>msg_type = ascii ''text'', msg_text = tpl_text @ ascii ''hello'' @ [0x22]\<rparr>"
  have a: "processable ?ev"
    by code_simp
  have a': "processable follow_event"
    by code_simp
  have args: "delivery_args ?ev = Some (JStr (ascii ''r1''), ?msg)"
    by code_simp
  have args': "delivery_args follow_event = None"
    by code_simp
  have b: "get_prop bare_message_event (ascii ''type'') = Inr (JStr (ascii ''message''))"
    by code_simp
  have c: "nullish (field bare_message_event (ascii ''message''))"
    by code_simp
  have d: "bare_message_event \<in> set [follow_event, bare_message_event]"
    by simp
  have e: "get_prop (JObj [(ascii ''events'', JArr [follow_event, bare_message_event])])
             (ascii ''events'') = Inr (JArr [follow_event, bare_message_event])"
    by (simp add: get_prop_JObj)
  have n: "calls no_world = []"
    by (simp add: no_world_def)
  from handleEvent_rejects_only_unprocessable [of ?ev "receipts_except 1" no_world] a
  have "fst (handleEvent (receipts_except 1) no_world ?ev) =
          (case receipts_except 1 [] (JStr (ascii ''r1'')) ?msg of
             Inl _ \<Rightarrow> Resolved JNull | Inr receipt \<Rightarrow> Resolved receipt)"
    and "calls (snd (handleEvent (receipts_except 1) no_world ?ev)) = [(JStr (ascii ''r1''), ?msg)]"
    unfolding args n by simp_all
  then have 1: "fst (handleEvent (receipts_except 1) no_world ?ev) =
                  Resolved (receipt_for (JStr (ascii ''r1'')) ?msg)"
    and 2: "calls (snd (handleEvent (receipts_except 1) no_world ?ev)) =
                  [(JStr (ascii ''r1''), ?msg)]"
    by (simp_all add: receipts_except_def)
  from handleEvent_rejects_only_unprocessable [of ?ev "receipts_except 0" no_world] a
  have "fst (handleEvent (receipts_except 0) no_world ?ev) =
          (case receipts_except 0 [] (JStr (ascii ''r1'')) ?msg of
             Inl _ \<Rightarrow> Resolved JNull | Inr receipt \<Rightarrow> Resolved receipt)"
    unfolding args n by simp
  then have 3: "fst (handleEvent (receipts_except 0) no_world ?ev) = Resolved JNull"
    by (simp add: receipts_except_def)
  from handleEvent_rejects_only_unprocessable [of follow_event "receipts_except 0" no_world] a'
  have 4: "fst (handleEvent (receipts_except 0) no_world follow_event) = Resolved JNull"
    and 5: "calls (snd (handleEvent (receipts_except 0) no_world follow_event)) = []"
    unfolding args' n by simp_all
  from handleEvent_rejects_only_unprocessable
         [of bare_message_event accepting no_world] b c d e
  have 6: "fst (handleEvent accepting no_world bare_message_event) = Rejected TypeError \<and>
        fst (webhook accepting no_world
          (JObj [(ascii ''events'', JArr [follow_event, bare_message_event])])) =
        Inr \<lparr>status = 200, body = Json (JObj [(ascii ''status'', JStr (ascii ''error''))])\<rparr>"
    by blast
  from 1 2 3 4 5 6 show ?thesis by blast
qed

text \<open>
  C1 as stated fails: the promise of a message event without a \<open>message\<close> field rejects,
  and the response to a batch in which it stands beside a well-formed text event carries
  no outcome for that sibling.
\<close>

theorem handleEvent_never_rejects_counterexample:
  "fst (handleEvent accepting no_world bare_message_event) = Rejected TypeError \<and>
   fst (handler secrets accepting no_world
          (post_events [text_event (ascii ''hello''), bare_message_event])) =
     Response \<lparr>status = 200,
               body = Json (JObj [(ascii ''status'', JStr (ascii ''error''))])\<rparr>"
  by code_simp

section \<open>The events of a batch, one by one\<close>

lemma map_handleEvent_length: "length (fst (map_handleEvent client w es)) = length es"
  by (induction es arbitrary: w) (simp_all add: split_beta)

lemma map_handleEvent_append:
  "map_handleEvent client w (xs @ ys) =
     (fst (map_handleEvent client w xs) @
        fst (map_handleEvent client (snd (map_handleEvent client w xs)) ys),
      snd (map_handleEvent client (snd (map_handleEvent client w xs)) ys))"
  by (induction xs arbitrary: w) (simp_all add: split_beta)

lemma map_handleEvent_world:
  "snd (map_handleEvent c w es) = snd (map_handleEvent client w es)"
proof (induction es arbitrary: w)
  case Nil
  then show ?case by simp
next
  case (Cons e es)
  then show ?case
    by (simp add: split_beta handleEvent_world [of c w e client])
qed

lemma world_before_client: "world_before c w es i = world_before client w es i"
  unfolding world_before_def by (rule map_handleEvent_world)

lemma map_handleEvent_nth:
  assumes "i < length es"
  shows "fst (map_handleEvent client w es) ! i =
           fst (handleEvent client (world_before client w es i) (es ! i))"
proof -
  have es: "es = take i es @ (es ! i # drop (Suc i) es)"
    using assms by (simp add: id_take_nth_drop)
  have "fst (map_handleEvent client w (take i es @ (es ! i # drop (Suc i) es))) ! i =
          fst (handleEvent client (world_before client w es i) (es ! i))"
    using assms
    by (simp add: map_handleEvent_append world_before_def split_beta nth_append
          map_handleEvent_length)
  with es show ?thesis by simp
qed

lemma world_before_Suc:
  assumes "i < length es"
  shows "world_before client w es (Suc i) =
           snd (handleEvent client (world_before client w es i) (es ! i))"
  using assms
  by (simp add: world_before_def take_Suc_conv_app_nth map_handleEvent_append split_beta)

lemma calls_handleEvent_length:
  "length (calls w) \<le> length (calls (snd (handleEvent client w event)))"
  using handleEvent_cases [of client w event] by auto

lemma world_before_mono:
  assumes "j \<le> k" and "k \<le> length es"
  shows "length (calls (world_before client w es j)) \<le>
         length (calls (world_before client w es k))"
  using assms
proof (induction k)
  case 0
  then show ?case by simp
next
  case (Suc k)
  show ?case
  proof (cases "j = Suc k")
    case True
    then show ?thesis by simp
  next
    case False
    with Suc.prems have "j \<le> k" and "k < length es" by simp_all
    with Suc.IH have "length (calls (world_before client w es j)) \<le>
                      length (calls (world_before client w es k))"
      by simp
    also have "\<dots> \<le> length (calls (world_before client w es (Suc k)))"
      unfolding world_before_Suc [OF \<open>k < length es\<close>] by (rule calls_handleEvent_length)
    finally show ?thesis .
  qed
qed

lemma handleEvent_resolved_message:
  assumes "fst (handleEvent client w event) = Resolved v"
    and "field event (ascii ''type'') = JStr (ascii ''message'')"
  shows "\<not> nullish (field event (ascii ''message'')) \<and>
         (\<exists>reply. replyText (field event (ascii ''message''))
                    (field (field event (ascii ''message'')) (ascii ''type'')) = Inr reply)"
proof -
  let ?m = "field event (ascii ''message'')"
  have ne: "\<not> nullish event"
    using assms(2) field_nullish [of event "ascii ''type''"] by auto
  then have g: "get_prop event k = Inr (field event k)" for k
    by (rule get_prop_prop)
  have nm: "\<not> nullish ?m"
  proof
    assume "nullish ?m"
    with g [of "ascii ''type''"] assms(2)
    have "fst (handleEvent client w event) = Rejected TypeError"
      by (simp add: handleEvent_message_missing)
    with assms(1) show False by simp
  qed
  then have gm: "get_prop ?m (ascii ''type'') = Inr (field ?m (ascii ''type''))"
    by (rule get_prop_prop)
  have "\<exists>reply. replyText ?m (field ?m (ascii ''type'')) = Inr reply"
  proof (cases "replyText ?m (field ?m (ascii ''type''))")
    case (Inl e)
    then have "fst (handleEvent client w event) = Rejected e"
      by (simp add: handleEvent_def Let_def ebind_def g gm assms(2))
    with assms(1) show ?thesis by simp
  next
    case (Inr reply)
    then show ?thesis by blast
  qed
  with nm show ?thesis by blast
qed

section \<open>The result array\<close>

text \<open>
  C10. When the response to a batch is \<open>{status: "success", result}\<close>, \<open>result\<close> has as
  many entries as the batch has events, and the entry at index \<open>i\<close> is the value the
  promise of event \<open>i\<close> resolved with. An event whose type is not "message" asks for no
  delivery call and its entry is \<open>null\<close>. A message event whose reply token renders asks
  for the call with \<open>event.replyToken\<close> and the composed reply; its entry is the receipt
  the client returns for that call, made after the calls of the events before it, and
  \<open>null\<close> when the client fails it: the same value as for a skipped event.
\<close>

theorem result_entry_per_event:
  assumes "get_prop reqBody (ascii ''events'') = Inr (JArr es)"
    and "fst (webhook client w reqBody) =
           Inr \<lparr>status = 200,
                body = Json (JObj [(ascii ''status'', JStr (ascii ''success'')),
                                   (ascii ''result'', JArr result)])\<rparr>"
  shows "length result = length es \<and>
         (\<forall>i<length es.
            fst (handleEvent client (world_before client w es i) (es ! i)) =
              Resolved (result ! i) \<and>
            calls (world_before client w es i) =
              calls w @ List.map_filter delivery_args (take i es) \<and>
            result ! i =
              (case delivery_args (es ! i) of
                 None \<Rightarrow> JNull
               | Some (replyToken, replyMessage) \<Rightarrow>
                   (case client (calls w @ List.map_filter delivery_args (take i es))
                           replyToken replyMessage of
                      Inl _ \<Rightarrow> JNull
                    | Inr receipt \<Rightarrow> receipt)) \<and>
            (field (es ! i) (ascii ''type'') \<noteq> JStr (ascii ''message'') \<longrightarrow>
               delivery_args (es ! i) = None \<and> result ! i = JNull) \<and>
            (field (es ! i) (ascii ''type'') = JStr (ascii ''message'') \<and>
             stringifiable (field (es ! i) (ascii ''replyToken'')) \<longrightarrow>
               (\<exists>reply. replyText (field (es ! i) (ascii ''message''))
                          (field (field (es ! i) (ascii ''message'')) (ascii ''type'')) =
                          Inr reply \<and>
                        delivery_args (es ! i) =
                          Some (field (es ! i) (ascii ''replyToken''),
                                \<lparr>msg_type = ascii ''text'', msg_text = reply\<rparr>))))"
proof -
  have ne: "es \<noteq> []"
  proof
    assume "es = []"
    with assms show False
      by (simp add: webhook_def truthy_def length_is_zero_def)
  qed
  have all: "promise_all (fst (map_handleEvent client w es)) = Resolved result"
    using assms(2) unfolding webhook_events [OF assms(1) ne]
    by (cases "promise_all (fst (map_handleEvent client w es))") simp_all
  then have ps: "fst (map_handleEvent client w es) = map Resolved result"
    by (rule promise_all_ResolvedD)
  then have len: "length result = length es"
    using map_handleEvent_length [of client w es] by simp
  have entry: "fst (handleEvent client (world_before client w es i) (es ! i)) =
                 Resolved (result ! i)" if "i < length es" for i
    using map_handleEvent_nth [OF that, of client w] that len by (simp add: ps)
  have history: "calls (world_before client w es i) =
                   calls w @ List.map_filter delivery_args (take i es)" for i
    unfolding world_before_def by (rule map_handleEvent_calls)
  have answer: "result ! i =
              (case delivery_args (es ! i) of
                 None \<Rightarrow> JNull
               | Some (replyToken, replyMessage) \<Rightarrow>
                   (case client (calls w @ List.map_filter delivery_args (take i es))
                           replyToken replyMessage of
                      Inl _ \<Rightarrow> JNull
                    | Inr receipt \<Rightarrow> receipt))" if i: "i < length es" for i
  proof (cases "delivery_args (es ! i)")
    case None
    with handleEvent_delivery_args_None [OF None, of client "world_before client w es i"]
      entry [OF i]
    show ?thesis by simp
  next
    case (Some d)
    obtain t m where d: "d = (t, m)" by (cases d)
    from handleEvent_delivery_args_Some [of "es ! i" t m client "world_before client w es i"]
      Some d entry [OF i]
    have "Resolved (result ! i) =
            (case client (calls (world_before client w es i)) t m of
               Inl _ \<Rightarrow> Resolved JNull | Inr r \<Rightarrow> Resolved r)"
      by simp
    then have "result ! i =
            (case client (calls (world_before client w es i)) t m of
               Inl _ \<Rightarrow> JNull | Inr r \<Rightarrow> r)"
      by (cases "client (calls (world_before client w es i)) t m") simp_all
    with Some d show ?thesis by (simp add: history)
  qed
  have skipped: "delivery_args (es ! i) = None"
    if "field (es ! i) (ascii ''type'') \<noteq> JStr (ascii ''message'')" for i
    using that by (simp add: delivery_args_def)
  have asked: "\<exists>reply. replyText (field (es ! i) (ascii ''message''))
                          (field (field (es ! i) (ascii ''message'')) (ascii ''type'')) =
                          Inr reply \<and>
                        delivery_args (es ! i) =
                          Some (field (es ! i) (ascii ''replyToken''),
                                \<lparr>msg_type = ascii ''text'', msg_text = reply\<rparr>)"
    if i: "i < length es"
      and m: "field (es ! i) (ascii ''type'') = JStr (ascii ''message'') \<and>
              stringifiable (field (es ! i) (ascii ''replyToken''))" for i
  proof -
    from handleEvent_resolved_message [OF entry [OF i]] m
    obtain reply where "\<not> nullish (field (es ! i) (ascii ''message''))"
      and "replyText (field (es ! i) (ascii ''message''))
             (field (field (es ! i) (ascii ''message'')) (ascii ''type'')) = Inr reply"
      by blast
    with m show ?thesis by (simp add: delivery_args_def)
  qed
  from len entry history answer skipped asked show ?thesis
    by (intro conjI allI impI) simp_all
qed

theorem result_entry_per_event_witness:
  "length [receipt_for (JStr (ascii ''r1''))
             \<lparr>msg_type = ascii ''text'', msg_text = tpl_text @ ascii ''hello'' @ [0x22]\<rparr>,
           JNull, JNull,
           receipt_for (JStr (ascii ''r1''))
             \<lparr>msg_type = ascii ''text'', msg_text = tpl_text @ ascii ''bye'' @ [0x22]\<rparr>] =
     length mixed_batch \<and>
   fst (handleEvent (receipts_except 1) (world_before (receipts_except 1) no_world mixed_batch 0)
          (mixed_batch ! 0)) =
     Resolved (receipt_for (JStr (ascii ''r1''))
                 \<lparr>msg_type = ascii ''text'',
                  msg_text = tpl_text @ ascii ''hello'' @ [0x22]\<rparr>) \<and>
   (case delivery_args (mixed_batch ! 0) of
      None \<Rightarrow> JNull
    | Some (replyToken, replyMessage) \<Rightarrow>
        (case receipts_except 1
                (calls no_world @ List.map_filter delivery_args (take 0 mixed_batch))
                replyToken replyMessage of
           Inl _ \<Rightarrow> JNull
         | Inr receipt \<Rightarrow> receipt)) =
     receipt_for (JStr (ascii ''r1''))
       \<lparr>msg_type = ascii ''text'', msg_text = tpl_text @ ascii ''hello'' @ [0x22]\<rparr> \<and>
   fst (handleEvent (receipts_except 1) (world_before (receipts_except 1) no_world mixed_batch 1)
          (mixed_batch ! 1)) = Resolved JNull \<and>
   (case delivery_args (mixed_batch ! 1) of
      None \<Rightarrow> JNull
    | Some (replyToken, replyMessage) \<Rightarrow>
        (case receipts_except 1
                (calls no_world @ List.map_filter delivery_args (take 1 mixed_batch))
                replyToken replyMessage of
           Inl _ \<Rightarrow> JNull
         | Inr receipt \<Rightarrow> receipt)) = JNull \<and>
   delivery_args (mixed_batch ! 2) = None"
proof -
  let ?body = "JObj [(ascii ''events'', JArr mixed_batch)]"
  let ?r0 = "receipt_for (JStr (ascii ''r1''))
               \<lparr>msg_type = ascii ''text'', msg_text = tpl_text @ ascii ''hello'' @ [0x22]\<rparr>"
  let ?r3 = "receipt_for (JStr (ascii ''r1''))
               \<lparr>msg_type = ascii ''text'', msg_text = tpl_text @ ascii ''bye'' @ [0x22]\<rparr>"
  let ?result = "[?r0, JNull, JNull, ?r3]"
  have a: "get_prop ?body (ascii ''events'') = Inr (JArr mixed_batch)"
    by (simp add: get_prop_JObj)
  have b: "fst (webhook (receipts_except 1) no_world ?body) =
             Inr \<lparr>status = 200,
                  body = Json (JObj [(ascii ''status'', JStr (ascii ''success'')),
                                     (ascii ''result'', JArr ?result)])\<rparr>"
    by code_simp
  have c: "field (mixed_batch ! 2) (ascii ''type'') \<noteq> JStr (ascii ''message'')"
    by code_simp
  have l: "0 < length mixed_batch" "1 < length mixed_batch" "2 < length mixed_batch"
    by (simp_all add: mixed_batch_def)
  have v: "?result ! 0 = ?r0" "?result ! 1 = JNull"
    by simp_all
  from result_entry_per_event [OF a b] l c v show ?thesis by metis
qed

section \<open>A failed delivery\<close>

text \<open>
  C3. Let the delivery call of event \<open>i\<close> of a batch fail. Then the promise of event
  \<open>i\<close> resolves with \<open>null\<close>. The outcomes of the other events are unaffected: they are
  the same under every client that answers all other delivery calls as this one does,
  whatever it answers to the call of event \<open>i\<close> (that call is identified by the number
  of calls made before it). And the batch is answered with status 200.
\<close>

theorem failed_delivery_is_isolated:
  assumes "i < length es"
    and "delivery_of client (world_before client w es i) (es ! i) = Some (Inl err)"
    and "\<forall>h t m. length h \<noteq> length (calls (world_before client w es i)) \<longrightarrow>
                  other h t m = client h t m"
    and "get_prop reqBody (ascii ''events'') = Inr (JArr es)"
  shows "fst (map_handleEvent client w es) ! i = Resolved JNull \<and>
         (\<forall>j<length es. j \<noteq> i \<longrightarrow>
            fst (map_handleEvent other w es) ! j = fst (map_handleEvent client w es) ! j) \<and>
         (\<exists>b w'. webhook client w reqBody = (Inr \<lparr>status = 200, body = b\<rparr>, w'))"
proof (intro conjI allI impI)
  obtain t m where tm: "Inl err = client (calls (world_before client w es i)) t m"
    and call: "\<And>c. calls (snd (handleEvent c (world_before client w es i) (es ! i))) =
                   calls (world_before client w es i) @ [(t, m)]"
    and out: "\<And>c. fst (handleEvent c (world_before client w es i) (es ! i)) =
                  (case c (calls (world_before client w es i)) t m of
                     Inl _ \<Rightarrow> Resolved JNull | Inr r \<Rightarrow> Resolved r)"
    using delivery_of_Some [OF assms(2)] by blast
  show "fst (map_handleEvent client w es) ! i = Resolved JNull"
    using out [of client] tm [symmetric] by (simp add: map_handleEvent_nth [OF assms(1)])
  have grown: "length (calls (world_before client w es (Suc i))) =
                 Suc (length (calls (world_before client w es i)))"
    by (simp add: world_before_Suc [OF assms(1)] call)
  show "fst (map_handleEvent other w es) ! j = fst (map_handleEvent client w es) ! j"
    if j: "j < length es" and ji: "j \<noteq> i" for j
  proof -
    let ?w = "world_before client w es j"
    have "fst (handleEvent other ?w (es ! j)) = fst (handleEvent client ?w (es ! j))"
    proof (cases "delivery_of client ?w (es ! j)")
      case None
      from delivery_of_None [OF this]
      have "handleEvent other ?w (es ! j) = handleEvent client ?w (es ! j)" by blast
      then show ?thesis by (rule arg_cong)
    next
      case (Some x)
      then obtain t' m'
        where call': "\<And>c. calls (snd (handleEvent c ?w (es ! j))) = calls ?w @ [(t', m')]"
          and out': "\<And>c. fst (handleEvent c ?w (es ! j)) =
                        (case c (calls ?w) t' m' of
                           Inl _ \<Rightarrow> Resolved JNull | Inr r \<Rightarrow> Resolved r)"
        using delivery_of_Some [of client ?w "es ! j" x] by blast
      have grown': "length (calls (world_before client w es (Suc j))) = Suc (length (calls ?w))"
        by (simp add: world_before_Suc [OF j] call')
      have "length (calls ?w) \<noteq> length (calls (world_before client w es i))"
      proof (cases "j < i")
        case True
        then have "Suc j \<le> i" and "i \<le> length es" using assms(1) by simp_all
        from world_before_mono [OF this, of client w] grown' show ?thesis by simp
      next
        case False
        with ji have "Suc i \<le> j" and "j \<le> length es" using j by simp_all
        from world_before_mono [OF this, of client w] grown show ?thesis by simp
      qed
      with assms(3) have "other (calls ?w) t' m' = client (calls ?w) t' m'" by blast
      then show ?thesis by (simp add: out')
    qed
    then show ?thesis
      by (simp add: map_handleEvent_nth [OF j] world_before_client [of other w es j client])
  qed
  show "\<exists>b w'. webhook client w reqBody = (Inr \<lparr>status = 200, body = b\<rparr>, w')"
    using assms(4) by (rule webhook_array_status)
qed

theorem failed_delivery_is_isolated_witness:
  "fst (map_handleEvent (failing_at 1) no_world mixed_batch) ! 1 = Resolved JNull \<and>
   fst (map_handleEvent accepting no_world mixed_batch) ! 0 =
     fst (map_handleEvent (failing_at 1) no_world mixed_batch) ! 0 \<and>
   fst (map_handleEvent accepting no_world mixed_batch) ! 3 =
     fst (map_handleEvent (failing_at 1) no_world mixed_batch) ! 3 \<and>
   (\<exists>b w'. webhook (failing_at 1) no_world (JObj [(ascii ''events'', JArr mixed_batch)]) =
             (Inr \<lparr>status = 200, body = b\<rparr>, w'))"
proof -
  let ?body = "JObj [(ascii ''events'', JArr mixed_batch)]"
  have a: "1 < length mixed_batch"
    by (simp add: mixed_batch_def)
  have b: "delivery_of (failing_at 1) (world_before (failing_at 1) no_world mixed_batch 1)
             (mixed_batch ! 1) = Some (Inl (DeliveryError (ascii ''Invalid reply token'')))"
    by code_simp
  have n: "length (calls (world_before (failing_at 1) no_world mixed_batch 1)) = 1"
    by code_simp
  have c: "\<forall>h t m. length h \<noteq> length (calls (world_before (failing_at 1) no_world mixed_batch 1))
             \<longrightarrow> accepting h t m = failing_at 1 h t m"
    unfolding n by (simp add: accepting_def failing_at_def)
  have d: "get_prop ?body (ascii ''events'') = Inr (JArr mixed_batch)"
    by (simp add: get_prop_JObj)
  have l: "0 < length mixed_batch" "3 < length mixed_batch" "(0::nat) \<noteq> 1" "(3::nat) \<noteq> 1"
    by (simp_all add: mixed_batch_def)
  from failed_delivery_is_isolated [OF a b c d] l show ?thesis by blast
qed

end
